theory Spec2Isabelle
  imports Complex_Main
begin

section \<open>Strings, paths and numbers of the runtime\<close>

text \<open>
  A JavaScript string is modelled as a HOL \<open>string\<close>: a list of code units, here over the
  8-bit range. \<open>length\<close> is the \<open>.length\<close> of the source. A thrown \<open>Error\<close> is
  represented by its message.
\<close>

type_synonym exn = string

text \<open>\<open>String.prototype.toLowerCase\<close> on the 8-bit range: A-Z and the Latin-1 capitals.\<close>

definition toLowerChar :: "char \<Rightarrow> char" where
  "toLowerChar c =
     (let n = (of_char c :: nat)
      in if (65 \<le> n \<and> n \<le> 90) \<or> (192 \<le> n \<and> n \<le> 222 \<and> n \<noteq> 215)
         then char_of (n + 32) else c)"

definition toLowerCase :: "string \<Rightarrow> string" where
  "toLowerCase s = map toLowerChar s"

text \<open>\<open>String.prototype.startsWith\<close>.\<close>

definition startsWith :: "string \<Rightarrow> string \<Rightarrow> bool" where
  "startsWith s p = (take (length p) s = p)"

text \<open>
  The character class \<open>\s\<close> of a JavaScript regular expression on the 8-bit range:
  tab, line feed, vertical tab, form feed, carriage return, space, no-break space.
\<close>

definition is_space :: "char \<Rightarrow> bool" where
  "is_space c = (c \<in> set [CHR 0x09, CHR 0x0A, CHR 0x0B, CHR 0x0C, CHR 0x0D, CHR 0x20, CHR 0xA0])"

text \<open>The class \<open>[a-f0-9]\<close> under the flag \<open>i\<close>.\<close>

definition is_hex :: "char \<Rightarrow> bool" where
  "is_hex c = (c \<in> set ''0123456789abcdefABCDEF'')"

text \<open>
  Node's \<open>path\<close> module (POSIX flavour), a library outside the repository.
  \<open>path.basename\<close> without a suffix: the last segment, trailing separators ignored.
  \<open>path.extname\<close>: from the last dot of that segment to its end; empty when the segment
  has no dot, when its only dot is its first character, and for the segment \<open>..\<close>.
  \<open>path.join\<close> is modelled on paths that are already normalised.
\<close>

definition basename :: "string \<Rightarrow> string" where
  "basename p =
     rev (takeWhile (\<lambda>c. c \<noteq> CHR ''/'') (dropWhile (\<lambda>c. c = CHR ''/'') (rev p)))"

definition extname :: "string \<Rightarrow> string" where
  "extname p =
     (let b = basename p;
          e = rev (takeWhile (\<lambda>c. c \<noteq> CHR ''.'') (rev b))
      in if CHR ''.'' \<notin> set b then []
         else if Suc (length e) = length b then []
         else if b = ''..'' then []
         else CHR ''.'' # e)"

definition path_join :: "string \<Rightarrow> string \<Rightarrow> string" where
  "path_join a b = (if a = [] then b else if b = [] then a else a @ ''/'' @ b)"

text \<open>
  A JavaScript number that results from dividing two non-negative integers: a finite
  quotient, \<open>Infinity\<close> (\<open>n / 0\<close> for \<open>n > 0\<close>) or \<open>NaN\<close> (\<open>0 / 0\<close>). Finite quotients are
  kept exact. Every comparison with \<open>NaN\<close> is false.
\<close>

datatype jsnum = Fin rat | PosInfinity | NaN

definition js_div :: "nat \<Rightarrow> nat \<Rightarrow> jsnum" where
  "js_div a b =
     (if b = 0 then (if a = 0 then NaN else PosInfinity) else Fin (of_nat a / of_nat b))"

definition js_lt :: "jsnum \<Rightarrow> rat \<Rightarrow> bool" where
  "js_lt x y = (case x of Fin r \<Rightarrow> r < y | PosInfinity \<Rightarrow> False | NaN \<Rightarrow> False)"

text \<open>\<open>Math.round\<close>: the nearest integer, halves rounded up.\<close>

definition Math_round :: "rat \<Rightarrow> int" where
  "Math_round x = \<lfloor>x + 1 / 2\<rfloor>"

section \<open>Build optimization (buildOptimization.ts)\<close>

datatype asset_type = Html | Css | Js | Image | Other

record AssetInfo =
  path :: string
  fsize :: nat
  atype :: asset_type
  hasHash :: bool

record Summary =
  totalFiles :: nat
  totalSize :: nat
  htmlFiles :: nat
  cssFiles :: nat
  jsFiles :: nat
  imageFiles :: nat
  otherFiles :: nat
  hashedAssets :: nat
  averageHtmlSize :: int
  averageCssSize :: int
  averageJsSize :: int

record OptimizationChecks =
  allAssetsHashed :: bool
  htmlMinified :: bool
  cssMinified :: bool
  jsMinified :: bool

record BuildReport =
  timestamp :: string
  outputDir :: string
  assets :: "AssetInfo list"
  summary :: Summary
  optimizationChecks :: OptimizationChecks

definition getAssetType :: "string \<Rightarrow> asset_type" where
  "getAssetType filePath =
     (let ext = toLowerCase (extname filePath)
      in if ext = ''.html'' \<or> ext = ''.htm'' then Html
         else if ext = ''.css'' then Css
         else if ext = ''.js'' \<or> ext = ''.mjs'' then Js
         else if ext \<in> set [''.jpg'', ''.jpeg'', ''.png'', ''.gif'', ''.webp'', ''.svg'',
                              ''.avif'', ''.ico''] then Image
         else Other)"

text \<open>
  \<open>hashPattern = /[._-][a-f0-9]{8,}\./i\<close>. \<open>hashPattern_at s\<close>: the pattern matches at
  the start of \<open>s\<close>. No separator and no dot is a hex digit, so the digits matched are the
  whole run of hex digits after the separator. \<open>regex_test\<close> is \<open>RegExp.prototype.test\<close>
  for a pattern without anchors: the pattern is tried at every position.
\<close>

definition hashPattern_at :: "string \<Rightarrow> bool" where
  "hashPattern_at s =
     (case s of
        [] \<Rightarrow> False
      | c # cs \<Rightarrow>
          c \<in> set ''._-'' \<and> 8 \<le> length (takeWhile is_hex cs) \<and>
          (case dropWhile is_hex cs of [] \<Rightarrow> False | d # _ \<Rightarrow> d = CHR ''.''))"

fun regex_test :: "(string \<Rightarrow> bool) \<Rightarrow> string \<Rightarrow> bool" where
  "regex_test m [] = m []"
| "regex_test m (c # cs) = (m (c # cs) \<or> regex_test m cs)"

definition hasContentHash :: "string \<Rightarrow> bool" where
  "hasContentHash filename = regex_test hashPattern_at filename"

text \<open>
  The reading of the specification: the hash segment stands immediately before the final
  extension, that is, the name without its last dot and what follows it ends in a separator
  and a run of at least 8 hex digits.
\<close>

definition hash_before_final_extension :: "string \<Rightarrow> bool" where
  "hash_before_final_extension f =
     (let stem_rev = drop 1 (dropWhile (\<lambda>c. c \<noteq> CHR ''.'') (rev f))
      in CHR ''.'' \<in> set f \<and> 8 \<le> length (takeWhile is_hex stem_rev) \<and>
         (case dropWhile is_hex stem_rev of [] \<Rightarrow> False | s # _ \<Rightarrow> s \<in> set ''._-''))"

text \<open>
  The three minification heuristics. \<open>(content.match(/\n/g) || []).length\<close> counts the
  line feeds. \<open>/\s{2,}/g\<close> is matched from left to right: where two whitespace characters
  meet, the match takes the whole run and the search goes on after it.
  \<open>/\/\*|\*\/|\/\//g\<close> likewise: a two-character marker is matched and skipped.
\<close>

definition count_newlines :: "string \<Rightarrow> nat" where
  "count_newlines s = length (filter (\<lambda>c. c = CHR 0x0A) s)"

function count_space_runs :: "string \<Rightarrow> nat" where
  "count_space_runs [] = 0"
| "count_space_runs (c # cs) =
     (if is_space c \<and> (case cs of [] \<Rightarrow> False | d # _ \<Rightarrow> is_space d)
      then Suc (count_space_runs (dropWhile is_space cs))
      else count_space_runs cs)"
  by pat_completeness auto
termination
  by (relation "measure length") (auto simp: le_imp_less_Suc length_dropWhile_le)

fun count_comment_markers :: "string \<Rightarrow> nat" where
  "count_comment_markers (a # b # cs) =
     (if [a, b] = ''/*'' \<or> [a, b] = ''*/'' \<or> [a, b] = ''//''
      then Suc (count_comment_markers cs)
      else count_comment_markers (b # cs))"
| "count_comment_markers [a] = 0"
| "count_comment_markers [] = 0"

definition isHtmlMinified :: "string \<Rightarrow> bool" where
  "isHtmlMinified content =
     (let newlineCount = count_newlines content;
          contentLength = length content
      in if contentLength < 200 then True
         else js_lt (js_div newlineCount contentLength) (2 / 100))"

definition isCssMinified :: "string \<Rightarrow> bool" where
  "isCssMinified content =
     (let whitespaceRatio = js_div (count_space_runs content) (length content)
      in js_lt whitespaceRatio (1 / 1000))"

definition isJsMinified :: "string \<Rightarrow> bool" where
  "isJsMinified content =
     (let newlineCount = count_newlines content;
          commentCount = count_comment_markers content;
          contentLength = length content
      in if contentLength < 100 then True
         else js_lt (js_div (newlineCount + commentCount) contentLength) (5 / 1000))"

text \<open>
  The file system as the code sees it. A directory entry (\<open>fs.Dirent\<close>) is a regular file
  with its size in bytes, a directory with its entries, or something else (a symbolic
  link, a socket). \<open>fs_tree\<close> gives the tree found at a path, \<open>None\<close> when nothing exists
  there; \<open>readFileSync\<close>, \<open>yaml_load\<close> (js-yaml's \<open>load\<close>) and the other calls return
  \<open>Inl\<close> of the message when they throw.
\<close>

datatype dirent = RegularFile nat | Directory "(string \<times> dirent) list" | OtherEntry

datatype jsval =
    JUndefined | JNull | JBool bool | JNum rat | JNaN | JStr string
  | JArr "jsval list" | JObj "(string \<times> jsval) list"

record node_env =
  fs_tree :: "string \<Rightarrow> dirent option"
  readFileSync :: "string \<Rightarrow> exn + string"
  yaml_load :: "string \<Rightarrow> exn + jsval"
  path_resolve :: "string \<Rightarrow> string"
  date_now :: string

definition existsSync :: "node_env \<Rightarrow> string \<Rightarrow> bool" where
  "existsSync env p = (fs_tree env p \<noteq> None)"

definition readdirSync :: "node_env \<Rightarrow> string \<Rightarrow> exn + (string \<times> dirent) list" where
  "readdirSync env p =
     (case fs_tree env p of
        Some (Directory es) \<Rightarrow> Inr es
      | Some _ \<Rightarrow> Inl ''ENOTDIR: not a directory, scandir''
      | None \<Rightarrow> Inl ''ENOENT: no such file or directory, scandir'')"

text \<open>
  \<open>collectFiles\<close>: the loop over the entries of a directory, with the path of the directory
  relative to the walked root (\<open>path.relative(baseDir, fullPath)\<close>).
\<close>

fun collect_entries :: "string \<Rightarrow> (string \<times> dirent) list \<Rightarrow> AssetInfo list"
  and collect_entry :: "string \<Rightarrow> string \<Rightarrow> dirent \<Rightarrow> AssetInfo list" where
  "collect_entries rel [] = []"
| "collect_entries rel (e # es) = collect_entry rel (fst e) (snd e) @ collect_entries rel es"
| "collect_entry rel name (Directory es) = collect_entries (path_join rel name) es"
| "collect_entry rel name (RegularFile sz) =
     [\<lparr>path = path_join rel name, fsize = sz, atype = getAssetType name,
       hasHash = hasContentHash name\<rparr>]"
| "collect_entry rel name OtherEntry = []"

definition collectFiles :: "node_env \<Rightarrow> string \<Rightarrow> exn + AssetInfo list" where
  "collectFiles env dir =
     (if \<not> existsSync env dir then Inr []
      else case readdirSync env dir of
             Inl e \<Rightarrow> Inl e
           | Inr entries \<Rightarrow> Inr (collect_entries [] entries))"

text \<open>
  One sampling loop of \<open>generateBuildReport\<close>: the flag starts true; the first sample
  that fails its check sets it to false and leaves the loop.
\<close>

fun sample_minified ::
  "(string \<Rightarrow> bool) \<Rightarrow> node_env \<Rightarrow> string \<Rightarrow> AssetInfo list \<Rightarrow> exn + bool" where
  "sample_minified chk env dir [] = Inr True"
| "sample_minified chk env dir (a # rest) =
     (case readFileSync env (path_join dir (path a)) of
        Inl e \<Rightarrow> Inl e
      | Inr content \<Rightarrow>
          if \<not> chk content then Inr False else sample_minified chk env dir rest)"

definition sum_sizes :: "AssetInfo list \<Rightarrow> nat" where
  "sum_sizes xs = foldl (\<lambda>sum a. sum + fsize a) 0 xs"

definition average_size :: "AssetInfo list \<Rightarrow> int" where
  "average_size xs =
     Math_round (if length xs > 0 then of_nat (sum_sizes xs) / of_nat (length xs) else 0)"

definition summarize :: "AssetInfo list \<Rightarrow> Summary" where
  "summarize collected =
     (let htmlList = filter (\<lambda>a. atype a = Html) collected;
          cssList = filter (\<lambda>a. atype a = Css) collected;
          jsList = filter (\<lambda>a. atype a = Js) collected;
          imageList = filter (\<lambda>a. atype a = Image) collected;
          otherList = filter (\<lambda>a. atype a = Other) collected
      in \<lparr>totalFiles = length collected,
          totalSize = sum_sizes collected,
          htmlFiles = length htmlList,
          cssFiles = length cssList,
          jsFiles = length jsList,
          imageFiles = length imageList,
          otherFiles = length otherList,
          hashedAssets = length (filter hasHash collected),
          averageHtmlSize = average_size htmlList,
          averageCssSize = average_size cssList,
          averageJsSize = average_size jsList\<rparr>)"

definition check_allAssetsHashed :: "AssetInfo list \<Rightarrow> bool" where
  "check_allAssetsHashed collected =
     (let assetsInAssetsFolder =
            filter (\<lambda>a. startsWith (path a) ''assets/'' \<and> (atype a = Css \<or> atype a = Js))
              collected
      in length assetsInAssetsFolder = 0 \<or> list_all hasHash assetsInAssetsFolder)"

definition generateBuildReport :: "node_env \<Rightarrow> string \<Rightarrow> exn + BuildReport" where
  "generateBuildReport env dir =
     (case collectFiles env dir of
        Inl e \<Rightarrow> Inl e
      | Inr collected \<Rightarrow>
     (case sample_minified isHtmlMinified env dir
             (take 3 (filter (\<lambda>a. atype a = Html) collected)) of
        Inl e \<Rightarrow> Inl e
      | Inr htmlFlag \<Rightarrow>
     (case sample_minified isCssMinified env dir
             (take 3 (filter (\<lambda>a. atype a = Css) collected)) of
        Inl e \<Rightarrow> Inl e
      | Inr cssFlag \<Rightarrow>
     (case sample_minified isJsMinified env dir
             (take 3 (filter (\<lambda>a. atype a = Js) collected)) of
        Inl e \<Rightarrow> Inl e
      | Inr jsFlag \<Rightarrow>
          Inr \<lparr>timestamp = date_now env,
               outputDir = dir,
               assets = collected,
               summary = summarize collected,
               optimizationChecks =
                 \<lparr>allAssetsHashed = check_allAssetsHashed collected,
                  htmlMinified = htmlFlag,
                  cssMinified = cssFlag,
                  jsMinified = jsFlag\<rparr>\<rparr>))))"

record BuildValidation =
  valid :: bool
  report :: BuildReport
  errors :: "string list"

text \<open>\<open>errors.push\<close> under a guard: the list is passed on, extended or unchanged.\<close>

definition push_unless :: "bool \<Rightarrow> string \<Rightarrow> string list \<Rightarrow> string list" where
  "push_unless flag msg errs = (if \<not> flag then errs @ [msg] else errs)"

definition validateBuildOptimization :: "node_env \<Rightarrow> string \<Rightarrow> exn + BuildValidation" where
  "validateBuildOptimization env dir =
     (case generateBuildReport env dir of
        Inl e \<Rightarrow> Inl e
      | Inr rep \<Rightarrow>
          (let checks = optimizationChecks rep;
               errors0 = [];
               errors1 = push_unless (allAssetsHashed checks)
                 ''Not all CSS/JS assets in the assets folder have content hashes'' errors0;
               errors2 = push_unless (htmlMinified checks)
                 ''HTML files do not appear to be minified'' errors1;
               errors3 = push_unless (cssMinified checks)
                 ''CSS files do not appear to be minified'' errors2;
               errors4 = push_unless (jsMinified checks)
                 ''JavaScript files do not appear to be minified'' errors3
           in Inr \<lparr>valid = (length errors4 = 0), report = rep, errors = errors4\<rparr>))"

text \<open>
  The reading of the specification for the hash check: an asset lives under an
  \<open>assets/\<close> path segment when one of the directories on its path is named \<open>assets\<close>.
\<close>

fun split_on :: "char \<Rightarrow> string \<Rightarrow> string list" where
  "split_on sep [] = [[]]"
| "split_on sep (c # cs) =
     (if c = sep then [] # split_on sep cs
      else (case split_on sep cs of seg # segs \<Rightarrow> (c # seg) # segs | [] \<Rightarrow> [[c]]))"

definition path_segments :: "string \<Rightarrow> string list" where
  "path_segments p = split_on (CHR ''/'') p"

definition under_assets_segment :: "string \<Rightarrow> bool" where
  "under_assets_segment p = (''assets'' \<in> set (butlast (path_segments p)))"

text \<open>
  A sample passes when its file can be read and the content passes the check of its type.
\<close>

definition sample_passes :: "(string \<Rightarrow> bool) \<Rightarrow> node_env \<Rightarrow> string \<Rightarrow> AssetInfo \<Rightarrow> bool" where
  "sample_passes chk env dir a =
     (case readFileSync env (path_join dir (path a)) of
        Inl e \<Rightarrow> False
      | Inr content \<Rightarrow> chk content)"

text \<open>
  Concrete snapshots for the examples: the trees found at some paths, the contents of some
  files, and the documents the YAML parser accepts; everything else is absent or throws.
\<close>

definition snapshot_env ::
  "(string \<times> dirent) list \<Rightarrow> (string \<times> string) list \<Rightarrow> (string \<times> jsval) list \<Rightarrow> node_env" where
  "snapshot_env trees contents docs =
     \<lparr>fs_tree = map_of trees,
      readFileSync = (\<lambda>p. case map_of contents p of
                             Some c \<Rightarrow> Inr c
                           | None \<Rightarrow> Inl ''ENOENT: no such file or directory, open''),
      yaml_load = (\<lambda>s. case map_of docs s of
                          Some v \<Rightarrow> Inr v
                        | None \<Rightarrow> Inl ''YAMLException: bad indentation of a mapping entry''),
      path_resolve = (\<lambda>p. p),
      date_now = ''2024-01-01T00:00:00.000Z''\<rparr>"

definition env_unhashed_css :: node_env where
  "env_unhashed_css =
     snapshot_env
       [(''dist'', Directory [(''index.html'', RegularFile 45),
                              (''assets'', Directory [(''style.css'', RegularFile 16)])])]
       [(''dist/index.html'', ''<!DOCTYPE html><html><body>Test</body></html>''),
        (''dist/assets/style.css'', ''.test{color:red}'')]
       []"

definition env_nested_assets :: node_env where
  "env_nested_assets =
     snapshot_env
       [(''dist'', Directory [(''static'', Directory [(''assets'', Directory
                                [(''app.js'', RegularFile 8)])])])]
       [(''dist/static/assets/app.js'', ''var x=1;'')]
       []"

definition env_empty_css :: node_env where
  "env_empty_css =
     snapshot_env
       [(''dist'', Directory [(''assets'', Directory [(''style.abc12345.css'', RegularFile 0)])])]
       [(''dist/assets/style.abc12345.css'', [])]
       []"

definition env_four_html :: node_env where
  "env_four_html =
     snapshot_env
       [(''dist'', Directory [(''a.html'', RegularFile 13), (''b.html'', RegularFile 13),
                              (''c.html'', RegularFile 13), (''d.html'', RegularFile 200)])]
       [(''dist/a.html'', ''<html></html>''), (''dist/b.html'', ''<html></html>''),
        (''dist/c.html'', ''<html></html>''),
        (''dist/d.html'', replicate 100 (CHR 0x0A) @ replicate 100 (CHR ''x''))]
       []"

section \<open>Data loader (dataLoader.ts)\<close>

text \<open>
  The schema library (zod) is outside the repository. A schema is its \<open>safeParse\<close>: it
  maps a parsed document to the typed value or to a \<open>ZodError\<close>. \<open>safeParse\<close> does not
  throw. A \<open>ZodError\<close> holds its issues; an issue is an object, given by its own
  properties in their order, among them \<open>path\<close> (an array of field names and indices)
  and \<open>message\<close>. The values of the properties are JSON values; a number is kept as the
  text that \<open>String\<close> and \<open>JSON.stringify\<close> print for it.
\<close>

datatype json =
    JsonNull | JsonBool bool | JsonNum string | JsonStr string
  | JsonArr "json list" | JsonObj "(string \<times> json) list"

type_synonym zod_issue = "(string \<times> json) list"

record ZodError =
  issues :: "zod_issue list"

type_synonym 'a ZodSchema = "jsval \<Rightarrow> ZodError + 'a"

text \<open>The properties \<open>path\<close> and \<open>message\<close> of an issue, the path with its elements as strings.\<close>

fun path_element :: "json \<Rightarrow> string" where
  "path_element (JsonStr s) = s"
| "path_element (JsonNum n) = n"
| "path_element v = []"

definition issue_path :: "zod_issue \<Rightarrow> string list" where
  "issue_path i = (case map_of i ''path'' of Some (JsonArr elems) \<Rightarrow> map path_element elems | _ \<Rightarrow> [])"

definition issue_message :: "zod_issue \<Rightarrow> string" where
  "issue_message i = (case map_of i ''message'' of Some (JsonStr m) \<Rightarrow> m | _ \<Rightarrow> [])"

text \<open>
  \<open>JSON.stringify(value, replacer, 2)\<close> of the runtime, where the replacer changes
  nothing: strings are quoted with the escapes of JSON; a non-empty array or object has
  each element on a line of its own, two spaces deeper, with commas between and the
  closing bracket on the depth of the opening one; a key is followed by a colon and a
  space. \<open>ind\<close> is the depth of the line the value starts on.
\<close>

definition hex_digit :: "nat \<Rightarrow> char" where
  "hex_digit n = ''0123456789abcdef'' ! (n mod 16)"

definition json_escape :: "char \<Rightarrow> string" where
  "json_escape c =
     (if c = CHR 0x22 then [CHR 0x5C, CHR 0x22]
      else if c = CHR 0x5C then [CHR 0x5C, CHR 0x5C]
      else if c = CHR 0x08 then [CHR 0x5C, CHR ''b'']
      else if c = CHR 0x0C then [CHR 0x5C, CHR ''f'']
      else if c = CHR 0x0A then [CHR 0x5C, CHR ''n'']
      else if c = CHR 0x0D then [CHR 0x5C, CHR ''r'']
      else if c = CHR 0x09 then [CHR 0x5C, CHR ''t'']
      else if (of_char c :: nat) < 32
      then [CHR 0x5C, CHR ''u'', CHR ''0'', CHR ''0'',
            hex_digit ((of_char c :: nat) div 16), hex_digit (of_char c :: nat)]
      else [c])"

definition json_quote :: "string \<Rightarrow> string" where
  "json_quote s = CHR 0x22 # concat (map json_escape s) @ [CHR 0x22]"

fun json_stringify :: "nat \<Rightarrow> json \<Rightarrow> string"
  and json_elements :: "nat \<Rightarrow> json list \<Rightarrow> string"
  and json_members :: "nat \<Rightarrow> (string \<times> json) list \<Rightarrow> string" where
  "json_stringify ind JsonNull = ''null''"
| "json_stringify ind (JsonBool b) = (if b then ''true'' else ''false'')"
| "json_stringify ind (JsonNum n) = n"
| "json_stringify ind (JsonStr s) = json_quote s"
| "json_stringify ind (JsonArr xs) =
     (if xs = [] then ''[]''
      else ''['' @ [CHR 0x0A] @ json_elements (ind + 2) xs @ [CHR 0x0A] @
           replicate ind (CHR '' '') @ '']'')"
| "json_stringify ind (JsonObj kvs) =
     (if kvs = [] then ''{}''
      else ''{'' @ [CHR 0x0A] @ json_members (ind + 2) kvs @ [CHR 0x0A] @
           replicate ind (CHR '' '') @ ''}'')"
| "json_elements ind [] = []"
| "json_elements ind (x # xs) =
     replicate ind (CHR '' '') @ json_stringify ind x @
     (if xs = [] then [] else '','' @ [CHR 0x0A] @ json_elements ind xs)"
| "json_members ind [] = []"
| "json_members ind (kv # kvs) =
     replicate ind (CHR '' '') @ json_quote (fst kv) @ '': '' @ json_stringify ind (snd kv) @
     (if kvs = [] then [] else '','' @ [CHR 0x0A] @ json_members ind kvs)"

text \<open>
  The property \<open>message\<close> of a \<open>ZodError\<close>: the library returns
  \<open>JSON.stringify(this.issues, util.jsonStringifyReplacer, 2)\<close>.
\<close>

definition zod_message :: "ZodError \<Rightarrow> string" where
  "zod_message err = json_stringify 0 (JsonArr (map JsonObj (issues err)))"

record 'a DataLoadResult =
  success :: bool
  data :: "'a option"
  error :: "string option"

text \<open>\<open>try { body } catch (error) { handler }\<close>, on results that are a thrown message or a value.\<close>

definition try_catch :: "exn + 'a \<Rightarrow> (exn \<Rightarrow> exn + 'a) \<Rightarrow> exn + 'a" where
  "try_catch body handler = (case body of Inl e \<Rightarrow> handler e | Inr r \<Rightarrow> Inr r)"

definition loadYamlFile ::
  "node_env \<Rightarrow> string \<Rightarrow> 'a ZodSchema \<Rightarrow> exn + 'a DataLoadResult" where
  "loadYamlFile env filePath schema =
     try_catch
       (let absolutePath = path_resolve env filePath
        in if \<not> existsSync env absolutePath
           then Inr \<lparr>success = False, data = None,
                     error = Some (''File not found: '' @ filePath)\<rparr>
           else case readFileSync env absolutePath of
                  Inl e \<Rightarrow> Inl e
                | Inr fileContent \<Rightarrow>
               (case yaml_load env fileContent of
                  Inl e \<Rightarrow> Inl e
                | Inr parsedYaml \<Rightarrow>
               (case schema parsedYaml of
                  Inl zerr \<Rightarrow>
                    Inr \<lparr>success = False, data = None,
                         error = Some (''Schema validation failed: '' @ zod_message zerr)\<rparr>
                | Inr parsed \<Rightarrow>
                    Inr \<lparr>success = True, data = Some parsed, error = None\<rparr>)))
       (\<lambda>e. Inr \<lparr>success = False, data = None,
                  error = Some (''Failed to load file: '' @ e)\<rparr>)"

text \<open>
  \<open>calculateAverageRating\<close>. The numbers are kept exact; \<open>null\<close> is \<open>None\<close>.
\<close>

record Testimonial =
  courseSlug :: string
  rating :: rat

definition calculateAverageRating :: "Testimonial list \<Rightarrow> string \<Rightarrow> rat option" where
  "calculateAverageRating testimonials slug =
     (let courseTestimonials = filter (\<lambda>t. courseSlug t = slug) testimonials
      in if length courseTestimonials = 0 then None
         else (let sum = foldl (\<lambda>acc t. acc + rating t) 0 courseTestimonials
               in Some (of_int (Math_round (sum / of_nat (length courseTestimonials) * 10)) / 10)))"

text \<open>The arithmetic mean of the specification.\<close>

definition mean :: "rat list \<Rightarrow> rat" where
  "mean xs = sum_list xs / of_nat (length xs)"

section \<open>Content validator (contentValidator.ts)\<close>

record ValidationResult =
  valid_r :: bool
  file_r :: string
  errors_r :: "string list option"

record ContentSummary =
  total_n :: nat
  valid_n :: nat
  invalid_n :: nat

record ContentValidationReport =
  success_c :: bool
  timestamp_c :: string
  results :: "ValidationResult list"
  summary_c :: ContentSummary

text \<open>\<open>Array.prototype.join\<close> on strings.\<close>

fun join_with :: "string \<Rightarrow> string list \<Rightarrow> string" where
  "join_with sep [] = []"
| "join_with sep [x] = x"
| "join_with sep (x # y # ys) = x @ sep @ join_with sep (y # ys)"

definition formatZodErrors :: "ZodError \<Rightarrow> string list" where
  "formatZodErrors err =
     map (\<lambda>i. let p = join_with ''.'' (issue_path i)
               in if p \<noteq> [] then p @ '': '' @ issue_message i else issue_message i)
       (issues err)"

definition validateYamlFile :: "node_env \<Rightarrow> string \<Rightarrow> 'a ZodSchema \<Rightarrow> ValidationResult" where
  "validateYamlFile env filePath schema =
     (let result = \<lparr>valid_r = False, file_r = filePath, errors_r = None\<rparr>
      in case (if \<not> existsSync env filePath
               then Inr (result\<lparr>errors_r := Some [''File not found: '' @ filePath]\<rparr>)
               else case readFileSync env filePath of
                      Inl e \<Rightarrow> Inl e
                    | Inr content \<Rightarrow>
                   (case yaml_load env content of
                      Inl e \<Rightarrow> Inl e
                    | Inr parsed \<Rightarrow>
                   (case schema parsed of
                      Inr checked \<Rightarrow> Inr (result\<lparr>valid_r := True\<rparr>)
                    | Inl zerr \<Rightarrow> Inr (result\<lparr>errors_r := Some (formatZodErrors zerr)\<rparr>))))
         of Inl e \<Rightarrow> result\<lparr>errors_r := Some [''Parse error: '' @ e]\<rparr>
          | Inr r \<Rightarrow> r)"

text \<open>
  \<open>frontmatterRegex = /^---\s*\n([\s\S]*?)\n---/\<close>, with the backtracking of the
  matcher written out. \<open>lazy_capture s\<close>: the group \<open>([\s\S]*?)\<close> followed by \<open>\n---\<close> at
  the start of \<open>s\<close>; the lazy group takes the text before the first \<open>\n---\<close>.
  \<open>after_dashes s\<close>: \<open>\s*\n([\s\S]*?)\n---\<close> at the start of \<open>s\<close>; the greedy \<open>\s*\<close> first
  takes a whitespace character and goes on, and gives it back when that fails, so that
  the character is the \<open>\n\<close> of the pattern. The result is the text of the group.
\<close>

fun lazy_capture :: "string \<Rightarrow> string option" where
  "lazy_capture [] = None"
| "lazy_capture (c # cs) =
     (if startsWith (c # cs) (CHR 0x0A # ''---'') then Some []
      else map_option ((#) c) (lazy_capture cs))"

fun after_dashes :: "string \<Rightarrow> string option" where
  "after_dashes [] = None"
| "after_dashes (c # cs) =
     (if is_space c
      then (case after_dashes cs of
              Some cap \<Rightarrow> Some cap
            | None \<Rightarrow> if c = CHR 0x0A then lazy_capture cs else None)
      else None)"

definition frontmatterRegex_match :: "string \<Rightarrow> string option" where
  "frontmatterRegex_match content =
     (if startsWith content ''---'' then after_dashes (drop 3 content) else None)"

text \<open>\<open>null\<close> is \<open>JNull\<close>; a failing \<open>yaml.load\<close> is caught and gives \<open>null\<close>.\<close>

definition extractFrontmatter :: "node_env \<Rightarrow> string \<Rightarrow> jsval" where
  "extractFrontmatter env content =
     (case frontmatterRegex_match content of
        None \<Rightarrow> JNull
      | Some cap \<Rightarrow> (case yaml_load env cap of Inl e \<Rightarrow> JNull | Inr v \<Rightarrow> v))"

text \<open>The truthiness of a JavaScript value, as \<open>!frontmatter\<close> tests it.\<close>

fun truthy :: "jsval \<Rightarrow> bool" where
  "truthy JUndefined = False"
| "truthy JNull = False"
| "truthy (JBool b) = b"
| "truthy (JNum r) = (r \<noteq> 0)"
| "truthy JNaN = False"
| "truthy (JStr s) = (s \<noteq> [])"
| "truthy (JArr xs) = True"
| "truthy (JObj kvs) = True"

definition validateMarkdownFile :: "node_env \<Rightarrow> string \<Rightarrow> 'a ZodSchema \<Rightarrow> ValidationResult" where
  "validateMarkdownFile env filePath schema =
     (let result = \<lparr>valid_r = False, file_r = filePath, errors_r = None\<rparr>
      in case (if \<not> existsSync env filePath
               then Inr (result\<lparr>errors_r := Some [''File not found: '' @ filePath]\<rparr>)
               else case readFileSync env filePath of
                      Inl e \<Rightarrow> Inl e
                    | Inr content \<Rightarrow>
                   (let frontmatter = extractFrontmatter env content
                    in if \<not> truthy frontmatter
                       then Inr (result\<lparr>errors_r :=
                                   Some [''No frontmatter found in markdown file'']\<rparr>)
                       else (case schema frontmatter of
                               Inr checked \<Rightarrow> Inr (result\<lparr>valid_r := True\<rparr>)
                             | Inl zerr \<Rightarrow>
                                 Inr (result\<lparr>errors_r := Some (formatZodErrors zerr)\<rparr>))))
         of Inl e \<Rightarrow> result\<lparr>errors_r := Some [''Parse error: '' @ e]\<rparr>
          | Inr r \<Rightarrow> r)"

text \<open>\<open>getFilesInDirectory\<close>: the loop over the entries, pushing the files that match.\<close>

fun matching_files :: "string \<Rightarrow> string list \<Rightarrow> (string \<times> dirent) list \<Rightarrow> string list \<Rightarrow> string list" where
  "matching_files dir extensions [] files = files"
| "matching_files dir extensions (entry # rest) files =
     (case snd entry of
        RegularFile sz \<Rightarrow>
          (let ext = toLowerCase (extname (fst entry))
           in if ext \<in> set extensions
              then matching_files dir extensions rest (files @ [path_join dir (fst entry)])
              else matching_files dir extensions rest files)
      | _ \<Rightarrow> matching_files dir extensions rest files)"

definition getFilesInDirectory :: "node_env \<Rightarrow> string \<Rightarrow> string list \<Rightarrow> exn + string list" where
  "getFilesInDirectory env dir extensions =
     (if \<not> existsSync env dir then Inr []
      else case readdirSync env dir of
             Inl e \<Rightarrow> Inl e
           | Inr entries \<Rightarrow> Inr (matching_files dir extensions entries []))"

text \<open>
  The schemas of \<open>schemas.ts\<close> that \<open>validateAllContent\<close> uses, as parameters.
\<close>

record content_schemas =
  resumeFileSchema :: "jsval ZodSchema"
  testimonialsFileSchema :: "jsval ZodSchema"
  repositoriesFileSchema :: "jsval ZodSchema"
  publicationsFileSchema :: "jsval ZodSchema"
  productSchema :: "jsval ZodSchema"

definition yamlValidations :: "content_schemas \<Rightarrow> string \<Rightarrow> (string \<times> jsval ZodSchema) list" where
  "yamlValidations schemas basePath =
     [(path_join basePath ''src/data/resume.yaml'', resumeFileSchema schemas),
      (path_join basePath ''src/data/testimonials.yaml'', testimonialsFileSchema schemas),
      (path_join basePath ''src/data/repositories.yaml'', repositoriesFileSchema schemas),
      (path_join basePath ''src/data/publications.yaml'', publicationsFileSchema schemas)]"

fun validate_yaml_files ::
  "node_env \<Rightarrow> (string \<times> jsval ZodSchema) list \<Rightarrow> ValidationResult list \<Rightarrow> ValidationResult list" where
  "validate_yaml_files env [] res = res"
| "validate_yaml_files env (v # rest) res =
     (if existsSync env (fst v)
      then validate_yaml_files env rest (res @ [validateYamlFile env (fst v) (snd v)])
      else validate_yaml_files env rest res)"

fun validate_product_files ::
  "node_env \<Rightarrow> jsval ZodSchema \<Rightarrow> string list \<Rightarrow> ValidationResult list \<Rightarrow> ValidationResult list" where
  "validate_product_files env schema [] res = res"
| "validate_product_files env schema (productFile # rest) res =
     (if basename productFile = ''.gitkeep'' then validate_product_files env schema rest res
      else validate_product_files env schema rest
             (res @ [validateMarkdownFile env productFile schema]))"

definition validateAllContent ::
  "node_env \<Rightarrow> content_schemas \<Rightarrow> string \<Rightarrow> exn + ContentValidationReport" where
  "validateAllContent env schemas basePath =
     (let results0 = validate_yaml_files env (yamlValidations schemas basePath) [];
          productsDir = path_join basePath ''src/data/products''
      in case getFilesInDirectory env productsDir [''.md'', ''.mdx''] of
           Inl e \<Rightarrow> Inl e
         | Inr productFiles \<Rightarrow>
             (let results1 = validate_product_files env (productSchema schemas) productFiles results0;
                  valid = length (filter (\<lambda>r. valid_r r) results1);
                  invalid = length (filter (\<lambda>r. \<not> valid_r r) results1)
              in Inr \<lparr>success_c = (invalid = 0),
                      timestamp_c = date_now env,
                      results = results1,
                      summary_c = \<lparr>total_n = length results1, valid_n = valid,
                                     invalid_n = invalid\<rparr>\<rparr>))"

text \<open>
  A manifest (\<open>Record<string, number>\<close>) is the list of its own entries in the order of
  \<open>Object.entries\<close>; an object has each key once (\<open>wf_manifest\<close>). A timestamp is a
  JavaScript number: finite, an infinity (\<open>True\<close> for the positive one) or \<open>NaN\<close>, and
  \<open>!==\<close> holds between two numbers when they differ or one of them is \<open>NaN\<close>.
  The operator \<open>in\<close> finds the own keys of the object and the names it inherits from
  \<open>Object.prototype\<close>; reading an inherited name gives a function or an object, which
  \<open>!==\<close> tells from every number.
\<close>

datatype js_number = Number rat | Infinity bool | NotANumber

definition strict_neq :: "js_number \<Rightarrow> js_number \<Rightarrow> bool" where
  "strict_neq a b = (a = NotANumber \<or> b = NotANumber \<or> a \<noteq> b)"

type_synonym manifest = "(string \<times> js_number) list"

definition wf_manifest :: "manifest \<Rightarrow> bool" where
  "wf_manifest m = distinct (map fst m)"

definition has_key :: "string \<Rightarrow> manifest \<Rightarrow> bool" where
  "has_key k m = (k \<in> set (map fst m))"

definition object_prototype_names :: "string list" where
  "object_prototype_names =
     [''constructor'', ''__defineGetter__'', ''__defineSetter__'', ''hasOwnProperty'',
      ''__lookupGetter__'', ''__lookupSetter__'', ''isPrototypeOf'', ''propertyIsEnumerable'',
      ''toString'', ''valueOf'', ''__proto__'', ''toLocaleString'']"

definition js_in :: "string \<Rightarrow> manifest \<Rightarrow> bool" where
  "js_in k m = (has_key k m \<or> k \<in> set object_prototype_names)"

definition property_differs :: "manifest \<Rightarrow> string \<Rightarrow> js_number \<Rightarrow> bool" where
  "property_differs m k t =
     (case map_of m k of Some t0 \<Rightarrow> strict_neq t0 t | None \<Rightarrow> True)"

record ContentChanges =
  added :: "string list"
  modified :: "string list"
  deleted :: "string list"

fun scan_new :: "manifest \<Rightarrow> manifest \<Rightarrow> string list \<times> string list \<Rightarrow> string list \<times> string list" where
  "scan_new oldManifest [] acc = acc"
| "scan_new oldManifest (entry # rest) acc =
     (if \<not> js_in (fst entry) oldManifest
      then scan_new oldManifest rest (fst acc @ [fst entry], snd acc)
      else if property_differs oldManifest (fst entry) (snd entry)
      then scan_new oldManifest rest (fst acc, snd acc @ [fst entry])
      else scan_new oldManifest rest acc)"

fun scan_old :: "manifest \<Rightarrow> string list \<Rightarrow> string list \<Rightarrow> string list" where
  "scan_old newManifest [] acc = acc"
| "scan_old newManifest (k # rest) acc =
     (if \<not> js_in k newManifest then scan_old newManifest rest (acc @ [k])
      else scan_old newManifest rest acc)"

definition detectContentChanges :: "manifest \<Rightarrow> manifest \<Rightarrow> ContentChanges" where
  "detectContentChanges oldManifest newManifest =
     (let am = scan_new oldManifest newManifest ([], []);
          del = scan_old newManifest (map fst oldManifest) []
      in \<lparr>added = fst am, modified = snd am, deleted = del\<rparr>)"

text \<open>
  The reading of the specification for a frontmatter block: the first line is exactly
  \<open>---\<close> and a later line is exactly \<open>---\<close>.
\<close>

definition split_lines :: "string \<Rightarrow> string list" where
  "split_lines content = split_on (CHR 0x0A) content"

definition spec_frontmatter_block :: "string \<Rightarrow> bool" where
  "spec_frontmatter_block content =
     (case split_lines content of
        [] \<Rightarrow> False
      | first # others \<Rightarrow> first = ''---'' \<and> ''---'' \<in> set others)"

text \<open>
  The schema of the loader's tests, \<open>z.object({ test: z.string() })\<close>, as the library
  answers on an object that has the field \<open>test\<close> alone or no field: a string is
  accepted, a number gives the issue \<open>invalid_type\<close> with the path \<open>test\<close>, and without the
  field the issue says \<open>Required\<close>. Other documents are not used.
\<close>

definition test_number_error :: ZodError where
  "test_number_error =
     \<lparr>issues = [[(''code'', JsonStr ''invalid_type''), (''expected'', JsonStr ''string''),
                  (''received'', JsonStr ''number''), (''path'', JsonArr [JsonStr ''test'']),
                  (''message'', JsonStr ''Expected string, received number'')]]\<rparr>"

definition test_required_error :: ZodError where
  "test_required_error =
     \<lparr>issues = [[(''code'', JsonStr ''invalid_type''), (''expected'', JsonStr ''string''),
                  (''received'', JsonStr ''undefined''), (''path'', JsonArr [JsonStr ''test'']),
                  (''message'', JsonStr ''Required'')]]\<rparr>"

fun test_schema :: "jsval ZodSchema" where
  "test_schema (JObj [(k, JStr s)]) =
     (if k = ''test'' then Inr (JObj [(k, JStr s)]) else Inl test_required_error)"
| "test_schema (JObj [(k, JNum n)]) =
     (if k = ''test'' then Inl test_number_error else Inl test_required_error)"
| "test_schema v = Inl test_required_error"

text \<open>
  A snapshot for the loader: a file of malformed YAML, a file that violates the schema,
  a file that satisfies it, and a directory, which exists and cannot be read as a file.
\<close>

definition env_loader_files :: node_env where
  "env_loader_files =
     snapshot_env
       [(''data/bad.yaml'', RegularFile 4), (''data/invalid.yaml'', RegularFile 7),
        (''data/ok.yaml'', RegularFile 11), (''data/folder.yaml'', Directory [])]
       [(''data/bad.yaml'', ''a: [''), (''data/invalid.yaml'', ''test: 5''),
        (''data/ok.yaml'', ''test: hello'')]
       [(''test: 5'', JObj [(''test'', JNum 5)]),
        (''test: hello'', JObj [(''test'', JStr ''hello'')])]"

definition env_loader :: node_env where
  "env_loader =
     env_loader_files
       \<lparr>readFileSync :=
          (\<lambda>p. if p = ''data/folder.yaml''
                then Inl ''EISDIR: illegal operation on a directory, read''
                else readFileSync env_loader_files p)\<rparr>"

text \<open>
  \<open>String.prototype.includes\<close>, and the reading of the specification for the error of a
  schema violation: it carries the list of the strings \<open>path: message\<close> of the issues.
  \<open>dq\<close> puts a text without special characters between double quotes.
\<close>

fun str_includes :: "string \<Rightarrow> string \<Rightarrow> bool" where
  "str_includes [] sub = (sub = [])"
| "str_includes (c # cs) sub = (startsWith (c # cs) sub \<or> str_includes cs sub)"

definition carries_issue_list :: "string \<Rightarrow> ZodError \<Rightarrow> bool" where
  "carries_issue_list err zerr = list_all (str_includes err) (formatZodErrors zerr)"

definition dq :: "string \<Rightarrow> string" where
  "dq s = CHR 0x22 # s @ [CHR 0x22]"

text \<open>
  A project for the examples of the content validator. Two of the four data files exist,
  one of them with a document the schema rejects; the products directory holds a file
  with frontmatter, one whose frontmatter is malformed YAML, one without frontmatter, one
  whose closing \<open>---\<close> is followed by more text on its line, and two files that are not
  Markdown. The schema accepts every object.
\<close>

definition js_lines :: "string list \<Rightarrow> string" where
  "js_lines ls = join_with [CHR 0x0A] ls"

definition object_error :: ZodError where
  "object_error =
     \<lparr>issues = [[(''code'', JsonStr ''invalid_type''), (''expected'', JsonStr ''object''),
                  (''received'', JsonStr ''array''), (''path'', JsonArr []),
                  (''message'', JsonStr ''Expected object'')]]\<rparr>"

fun object_schema :: "jsval ZodSchema" where
  "object_schema (JObj kvs) = Inr (JObj kvs)"
| "object_schema v = Inl object_error"

definition example_schemas :: content_schemas where
  "example_schemas =
     \<lparr>resumeFileSchema = object_schema, testimonialsFileSchema = object_schema,
      repositoriesFileSchema = object_schema, publicationsFileSchema = object_schema,
      productSchema = object_schema\<rparr>"

definition env_site :: node_env where
  "env_site =
     snapshot_env
       [(''site/src/data/testimonials.yaml'', RegularFile 16),
        (''site/src/data/repositories.yaml'', RegularFile 3),
        (''site/src/data/products'',
           Directory [(''.gitkeep'', RegularFile 0), (''broken.md'', RegularFile 13),
                      (''course.md'', RegularFile 26), (''loose.md'', RegularFile 22),
                      (''notes.txt'', RegularFile 5), (''plain.md'', RegularFile 7)]),
        (''site/src/data/products/broken.md'', RegularFile 13),
        (''site/src/data/products/course.md'', RegularFile 26),
        (''site/src/data/products/loose.md'', RegularFile 22),
        (''site/src/data/products/plain.md'', RegularFile 7)]
       [(''site/src/data/testimonials.yaml'', ''testimonials: []''),
        (''site/src/data/repositories.yaml'', ''- a''),
        (''site/src/data/products/broken.md'', js_lines [''---'', ''a: ['', ''---'', []]),
        (''site/src/data/products/course.md'',
           js_lines [''---'', ''title: Course'', ''---'', ''Body'']),
        (''site/src/data/products/loose.md'', js_lines [''---'', ''title: Course'', ''---x'']),
        (''site/src/data/products/plain.md'', ''# Title'')]
       [(''testimonials: []'', JObj [(''testimonials'', JArr [])]),
        (''- a'', JArr [JStr ''a'']),
        (''title: Course'', JObj [(''title'', JStr ''Course'')])]"

section \<open>Asset classification and content hashes\<close>

lemma of_char_toLowerChar:
  "(of_char (toLowerChar c) :: nat) =
     (if (65 \<le> (of_char c :: nat) \<and> (of_char c :: nat) \<le> 90) \<or>
         (192 \<le> (of_char c :: nat) \<and> (of_char c :: nat) \<le> 222 \<and> (of_char c :: nat) \<noteq> 215)
      then of_char c + 32 else of_char c)"
  by (simp add: toLowerChar_def Let_def)

lemma toLowerChar_eq_iff:
  assumes "of_char d \<notin> ({65..90} \<union> {97..122} \<union> {192..254} :: nat set)"
  shows "(toLowerChar c = d) = (c = d)"
proof -
  have "(of_char (toLowerChar c) = (of_char d :: nat)) = (of_char c = (of_char d :: nat))"
    using assms by (auto simp: of_char_toLowerChar)
  then show ?thesis by simp
qed

lemma toLowerChar_dot [simp]: "(toLowerChar c = CHR ''.'') = (c = CHR ''.'')"
  by (rule toLowerChar_eq_iff) simp

lemma toLowerChar_slash [simp]: "(toLowerChar c = CHR ''/'') = (c = CHR ''/'')"
  by (rule toLowerChar_eq_iff) simp

lemma toLowerChar_dot' [simp]: "(CHR ''.'' = toLowerChar c) = (c = CHR ''.'')"
  using toLowerChar_dot [of c] by (simp only: eq_commute)

lemma toLowerChar_idem [simp]: "toLowerChar (toLowerChar c) = toLowerChar c"
proof -
  have "(of_char (toLowerChar (toLowerChar c)) :: nat) = of_char (toLowerChar c)"
    by (auto simp: of_char_toLowerChar)
  then show ?thesis by simp
qed

lemma toLowerCase_idem [simp]: "toLowerCase (toLowerCase s) = toLowerCase s"
  by (simp add: toLowerCase_def)

lemma basename_toLowerCase: "basename (toLowerCase p) = toLowerCase (basename p)"
  by (simp add: basename_def toLowerCase_def rev_map takeWhile_map dropWhile_map comp_def)

lemma extname_toLowerCase: "extname (toLowerCase p) = toLowerCase (extname p)"
proof -
  have dot: "(CHR ''.'' \<in> set (toLowerCase b)) = (CHR ''.'' \<in> set b)" for b
    by (induction b) (auto simp: toLowerCase_def)
  have two: "(toLowerCase b = ''..'') = (b = ''..'')" for b
    by (auto simp: toLowerCase_def)
  have tk: "takeWhile (\<lambda>c. c \<noteq> CHR ''.'') (rev (toLowerCase b)) =
            toLowerCase (takeWhile (\<lambda>c. c \<noteq> CHR ''.'') (rev b))" for b
    by (simp add: toLowerCase_def rev_map takeWhile_map comp_def)
  show ?thesis
    unfolding extname_def basename_toLowerCase Let_def dot two tk
    by (simp add: toLowerCase_def rev_map)
qed

lemma getAssetType_toLowerCase: "getAssetType (toLowerCase f) = getAssetType f"
  by (simp add: getAssetType_def extname_toLowerCase)

text \<open>
  C9. \<open>getAssetType\<close> is defined on every filename and does not depend on the case of
  its letters; it yields html exactly for the extensions html and htm, css for css, js for
  js and mjs, image for jpg, jpeg, png, gif, webp, svg, avif and ico, and other for every
  other filename. \<open>getAssetType("main.MJS")\<close> is js.
\<close>

theorem getAssetType_classification:
  "getAssetType (toLowerCase f) = getAssetType f \<and>
   (getAssetType f = Html) = (toLowerCase (extname f) \<in> {''.html'', ''.htm''}) \<and>
   (getAssetType f = Css) = (toLowerCase (extname f) = ''.css'') \<and>
   (getAssetType f = Js) = (toLowerCase (extname f) \<in> {''.js'', ''.mjs''}) \<and>
   (getAssetType f = Image) =
     (toLowerCase (extname f) \<in>
        {''.jpg'', ''.jpeg'', ''.png'', ''.gif'', ''.webp'', ''.svg'', ''.avif'', ''.ico''}) \<and>
   (getAssetType f = Other) =
     (toLowerCase (extname f) \<notin>
        {''.html'', ''.htm'', ''.css'', ''.js'', ''.mjs'', ''.jpg'', ''.jpeg'', ''.png'',
         ''.gif'', ''.webp'', ''.svg'', ''.avif'', ''.ico''}) \<and>
   getAssetType ''main.MJS'' = Js"
proof -
  have ex: "getAssetType ''main.MJS'' = Js" by code_simp
  have cls: "(getAssetType f = Html) = (toLowerCase (extname f) \<in> {''.html'', ''.htm''})"
    "(getAssetType f = Css) = (toLowerCase (extname f) = ''.css'')"
    "(getAssetType f = Js) = (toLowerCase (extname f) \<in> {''.js'', ''.mjs''})"
    "(getAssetType f = Image) =
     (toLowerCase (extname f) \<in>
        {''.jpg'', ''.jpeg'', ''.png'', ''.gif'', ''.webp'', ''.svg'', ''.avif'', ''.ico''})"
    "(getAssetType f = Other) =
     (toLowerCase (extname f) \<notin>
        {''.html'', ''.htm'', ''.css'', ''.js'', ''.mjs'', ''.jpg'', ''.jpeg'', ''.png'',
         ''.gif'', ''.webp'', ''.svg'', ''.avif'', ''.ico''})"
    by (simp_all add: getAssetType_def Let_def)
  show ?thesis using getAssetType_toLowerCase ex cls by blast
qed

lemma regex_test_iff: "regex_test m s = (\<exists>pre rest. s = pre @ rest \<and> m rest)"
proof (induction s)
  case Nil
  then show ?case by simp
next
  case (Cons c cs)
  have "(\<exists>pre rest. c # cs = pre @ rest \<and> m rest) =
        (m (c # cs) \<or> (\<exists>pre rest. cs = pre @ rest \<and> m rest))"
    by (auto simp: Cons_eq_append_conv)
  with Cons show ?case by simp
qed

lemma not_hex_dot: "\<not> is_hex CHR ''.''"
  by (simp add: is_hex_def)

lemma hashPattern_at_iff:
  "hashPattern_at s =
     (\<exists>sep hex post. s = sep # hex @ CHR ''.'' # post \<and> sep \<in> set ''._-'' \<and>
        8 \<le> length hex \<and> list_all is_hex hex)"
proof
  assume h: "hashPattern_at s"
  then obtain c cs where s: "s = c # cs"
    by (cases s) (auto simp: hashPattern_at_def)
  from h s obtain post where d: "dropWhile is_hex cs = CHR ''.'' # post"
    by (auto simp: hashPattern_at_def split: list.splits)
  have "cs = takeWhile is_hex cs @ CHR ''.'' # post"
    using takeWhile_dropWhile_id [of is_hex cs] d by simp
  moreover have "list_all is_hex (takeWhile is_hex cs)"
    by (auto simp: list_all_iff dest: set_takeWhileD)
  ultimately show "\<exists>sep hex post. s = sep # hex @ CHR ''.'' # post \<and> sep \<in> set ''._-'' \<and>
        8 \<le> length hex \<and> list_all is_hex hex"
    using h s by (auto simp: hashPattern_at_def)
next
  assume "\<exists>sep hex post. s = sep # hex @ CHR ''.'' # post \<and> sep \<in> set ''._-'' \<and>
        8 \<le> length hex \<and> list_all is_hex hex"
  then obtain sep hex post where s: "s = sep # hex @ CHR ''.'' # post"
    and sep: "sep \<in> set ''._-''" and len: "8 \<le> length hex" and hx: "list_all is_hex hex"
    by blast
  have t: "takeWhile is_hex (hex @ CHR ''.'' # post) = hex"
    using hx not_hex_dot by (simp add: list_all_iff)
  have d: "dropWhile is_hex (hex @ CHR ''.'' # post) = CHR ''.'' # post"
    using hx not_hex_dot by (simp add: list_all_iff)
  show "hashPattern_at s"
    unfolding hashPattern_at_def s using sep len by (simp add: t d)
qed

text \<open>
  C3, as amended. \<open>hasContentHash\<close> is true exactly when the filename contains, at any
  position, one of the separators \<open>.\<close>, \<open>_\<close>, \<open>-\<close>, then at least 8 hex digits of either
  case, then a dot. The three examples of the specification hold.
\<close>

theorem hasContentHash_anywhere:
  "hasContentHash f =
     (\<exists>pre sep hex post. f = pre @ sep # hex @ CHR ''.'' # post \<and> sep \<in> set ''._-'' \<and>
        8 \<le> length hex \<and> list_all is_hex hex) \<and>
   hasContentHash ''style.abc12345.css'' \<and>
   \<not> hasContentHash ''style.css'' \<and>
   \<not> hasContentHash ''style.abc.css''"
proof -
  have a: "hasContentHash ''style.abc12345.css''" by code_simp
  have b: "\<not> hasContentHash ''style.css''" by code_simp
  have c: "\<not> hasContentHash ''style.abc.css''" by code_simp
  have "hasContentHash f =
     (\<exists>pre sep hex post. f = pre @ sep # hex @ CHR ''.'' # post \<and> sep \<in> set ''._-'' \<and>
        8 \<le> length hex \<and> list_all is_hex hex)"
    unfolding hasContentHash_def regex_test_iff hashPattern_at_iff by blast
  with a b c show ?thesis by blast
qed

text \<open>
  C3, as stated, fails: in \<open>lib.abcdef12.min.js\<close> the hash is followed by \<open>.min\<close> and
  not by the final extension, and \<open>hasContentHash\<close> is true.
\<close>

theorem hasContentHash_counterexample:
  "hasContentHash ''lib.abcdef12.min.js'' \<and>
   \<not> hash_before_final_extension ''lib.abcdef12.min.js''"
  by code_simp

section \<open>The build report\<close>

lemma sample_minified_result:
  "sample_minified chk env dir xs = Inr b \<Longrightarrow>
   b = list_all (sample_passes chk env dir) xs"
  by (induction xs) (auto simp: sample_passes_def split: sum.splits if_splits)

lemma sample_minified_short_circuit:
  "list_all (sample_passes chk env dir) pre \<Longrightarrow>
   readFileSync env (path_join dir (path a)) = Inr content \<Longrightarrow> \<not> chk content \<Longrightarrow>
   sample_minified chk env dir (pre @ a # post) = Inr False"
  by (induction pre) (auto simp: sample_passes_def split: sum.splits)

lemma generateBuildReport_Inr:
  assumes "generateBuildReport env dir = Inr rep"
  shows "collectFiles env dir = Inr (assets rep)"
    and "sample_minified isHtmlMinified env dir
           (take 3 (filter (\<lambda>a. atype a = Html) (assets rep))) =
         Inr (htmlMinified (optimizationChecks rep))"
    and "sample_minified isCssMinified env dir
           (take 3 (filter (\<lambda>a. atype a = Css) (assets rep))) =
         Inr (cssMinified (optimizationChecks rep))"
    and "sample_minified isJsMinified env dir
           (take 3 (filter (\<lambda>a. atype a = Js) (assets rep))) =
         Inr (jsMinified (optimizationChecks rep))"
    and "allAssetsHashed (optimizationChecks rep) = check_allAssetsHashed (assets rep)"
proof -
  from assms obtain cs where cs: "collectFiles env dir = Inr cs"
    by (cases "collectFiles env dir") (simp_all add: generateBuildReport_def)
  from assms cs obtain h where
    h: "sample_minified isHtmlMinified env dir (take 3 (filter (\<lambda>a. atype a = Html) cs)) = Inr h"
    by (cases "sample_minified isHtmlMinified env dir (take 3 (filter (\<lambda>a. atype a = Html) cs))")
      (simp_all add: generateBuildReport_def)
  from assms cs h obtain c where
    c: "sample_minified isCssMinified env dir (take 3 (filter (\<lambda>a. atype a = Css) cs)) = Inr c"
    by (cases "sample_minified isCssMinified env dir (take 3 (filter (\<lambda>a. atype a = Css) cs))")
      (simp_all add: generateBuildReport_def)
  from assms cs h c obtain j where
    j: "sample_minified isJsMinified env dir (take 3 (filter (\<lambda>a. atype a = Js) cs)) = Inr j"
    by (cases "sample_minified isJsMinified env dir (take 3 (filter (\<lambda>a. atype a = Js) cs))")
      (simp_all add: generateBuildReport_def)
  have rep: "rep = \<lparr>timestamp = date_now env, outputDir = dir, assets = cs,
               summary = summarize cs,
               optimizationChecks =
                 \<lparr>allAssetsHashed = check_allAssetsHashed cs, htmlMinified = h,
                  cssMinified = c, jsMinified = j\<rparr>\<rparr>"
    using assms by (simp add: generateBuildReport_def cs h c j)
  show "collectFiles env dir = Inr (assets rep)" by (simp add: rep cs)
  show "sample_minified isHtmlMinified env dir
           (take 3 (filter (\<lambda>a. atype a = Html) (assets rep))) =
         Inr (htmlMinified (optimizationChecks rep))" by (simp add: rep h)
  show "sample_minified isCssMinified env dir
           (take 3 (filter (\<lambda>a. atype a = Css) (assets rep))) =
         Inr (cssMinified (optimizationChecks rep))" by (simp add: rep c)
  show "sample_minified isJsMinified env dir
           (take 3 (filter (\<lambda>a. atype a = Js) (assets rep))) =
         Inr (jsMinified (optimizationChecks rep))" by (simp add: rep j)
  show "allAssetsHashed (optimizationChecks rep) = check_allAssetsHashed (assets rep)"
    by (simp add: rep)
qed

lemma isCssMinified_Nil: "\<not> isCssMinified []"
  by (simp add: isCssMinified_def js_div_def js_lt_def)

text \<open>
  C10. \<open>isCssMinified\<close> of the empty string is false: the count of whitespace runs, 0, is
  divided by the length, 0, without a guard, the quotient is \<open>NaN\<close> and the comparison
  \<open>NaN < 0.001\<close> is false. \<open>isHtmlMinified\<close> and \<open>isJsMinified\<close> are true on every
  content below 200 and 100 characters, so also on the empty string. Hence a css file of
  zero bytes among the samples of \<open>generateBuildReport\<close> makes \<open>cssMinified\<close> false.
\<close>

theorem isCssMinified_empty_content:
  "js_div (count_space_runs []) (length ([] :: string)) = NaN \<and>
   \<not> js_lt NaN (1 / 1000) \<and>
   \<not> isCssMinified [] \<and>
   (length content < 200 \<longrightarrow> isHtmlMinified content) \<and>
   (length content < 100 \<longrightarrow> isJsMinified content) \<and>
   isHtmlMinified [] \<and> isJsMinified [] \<and>
   (generateBuildReport env dir = Inr rep \<and>
    a \<in> set (take 3 (filter (\<lambda>a. atype a = Css) (assets rep))) \<and>
    readFileSync env (path_join dir (path a)) = Inr [] \<longrightarrow>
    \<not> cssMinified (optimizationChecks rep))"
proof -
  have rep: "\<not> cssMinified (optimizationChecks rep)"
    if r: "generateBuildReport env dir = Inr rep"
      and a: "a \<in> set (take 3 (filter (\<lambda>a. atype a = Css) (assets rep)))"
      and c: "readFileSync env (path_join dir (path a)) = Inr []"
  proof
    assume "cssMinified (optimizationChecks rep)"
    with sample_minified_result [OF generateBuildReport_Inr(3) [OF r]]
    have "list_all (sample_passes isCssMinified env dir)
            (take 3 (filter (\<lambda>a. atype a = Css) (assets rep)))"
      by simp
    with a c have "isCssMinified []"
      by (auto simp: list_all_iff sample_passes_def)
    with isCssMinified_Nil show False by simp
  qed
  have "js_div (count_space_runs []) (length ([] :: string)) = NaN"
    by (simp add: js_div_def)
  moreover have "\<not> js_lt NaN (1 / 1000)"
    by (simp add: js_lt_def)
  moreover have "length content < 200 \<longrightarrow> isHtmlMinified content"
    by (simp add: isHtmlMinified_def)
  moreover have "length content < 100 \<longrightarrow> isJsMinified content"
    by (simp add: isJsMinified_def)
  moreover have "isHtmlMinified []" by (simp add: isHtmlMinified_def)
  moreover have "isJsMinified []" by (simp add: isJsMinified_def)
  ultimately show ?thesis using rep isCssMinified_Nil by blast
qed

lemma generateBuildReport_returns:
  assumes "collectFiles env dir = Inr cs"
    and "sample_minified isHtmlMinified env dir (take 3 (filter (\<lambda>a. atype a = Html) cs)) = Inr h"
    and "sample_minified isCssMinified env dir (take 3 (filter (\<lambda>a. atype a = Css) cs)) = Inr c"
    and "sample_minified isJsMinified env dir (take 3 (filter (\<lambda>a. atype a = Js) cs)) = Inr j"
  shows "\<exists>rep. generateBuildReport env dir = Inr rep \<and> assets rep = cs \<and>
           htmlMinified (optimizationChecks rep) = h \<and>
           cssMinified (optimizationChecks rep) = c \<and>
           jsMinified (optimizationChecks rep) = j"
  using assms by (simp add: generateBuildReport_def)

lemma collect_empty_css:
  "collectFiles env_empty_css ''dist'' =
     Inr [\<lparr>path = ''assets/style.abc12345.css'', fsize = 0, atype = Css, hasHash = True\<rparr>]"
  by code_simp

lemma read_empty_css:
  "readFileSync env_empty_css (path_join ''dist'' ''assets/style.abc12345.css'') = Inr []"
  by code_simp


theorem isCssMinified_empty_content_witness:
  "\<exists>rep. generateBuildReport env_empty_css ''dist'' = Inr rep \<and>
         \<not> cssMinified (optimizationChecks rep) \<and>
         isHtmlMinified ''<p>x</p>'' \<and> isJsMinified ''var x=1;''"
proof -
  let ?a = "\<lparr>path = ''assets/style.abc12345.css'', fsize = 0, atype = Css, hasHash = True\<rparr>"
  have css: "sample_minified isCssMinified env_empty_css ''dist''
               (take 3 (filter (\<lambda>a. atype a = Css) [?a])) = Inr False"
    using read_empty_css isCssMinified_Nil by simp
  have "\<exists>rep. generateBuildReport env_empty_css ''dist'' = Inr rep \<and> assets rep = [?a] \<and>
           htmlMinified (optimizationChecks rep) = True \<and>
           cssMinified (optimizationChecks rep) = False \<and>
           jsMinified (optimizationChecks rep) = True"
    by (rule generateBuildReport_returns [OF collect_empty_css _ css]) simp_all
  then obtain rep where rep: "generateBuildReport env_empty_css ''dist'' = Inr rep"
    and as: "assets rep = [?a]" by blast
  have mem: "?a \<in> set (take 3 (filter (\<lambda>a. atype a = Css) (assets rep)))"
    by (simp add: as)
  have rd: "readFileSync env_empty_css (path_join ''dist'' (path ?a)) = Inr []"
    using read_empty_css by simp
  have l1: "length ''<p>x</p>'' < 200" and l2: "length ''var x=1;'' < 100" by simp_all
  from isCssMinified_empty_content [of "''<p>x</p>''" env_empty_css "''dist''" rep ?a]
       isCssMinified_empty_content [of "''var x=1;''" env_empty_css "''dist''" rep ?a]
       rep mem rd l1 l2
  show ?thesis by blast
qed

text \<open>
  C8. When \<open>validateBuildOptimization\<close> returns, \<open>valid\<close> is true exactly when the list
  of errors is empty; the list holds, in order, one message for each optimization check
  of the generated report that is false, and no other; and when \<open>allAssetsHashed\<close> is
  false one of the errors contains the words \<open>content hashes\<close>.
\<close>

theorem validateBuildOptimization_errors:
  assumes "validateBuildOptimization env dir = Inr v"
  shows "generateBuildReport env dir = Inr (report v) \<and>
         valid v = (errors v = []) \<and>
         errors v =
           (if allAssetsHashed (optimizationChecks (report v)) then []
            else [''Not all CSS/JS assets in the assets folder have content hashes'']) @
           (if htmlMinified (optimizationChecks (report v)) then []
            else [''HTML files do not appear to be minified'']) @
           (if cssMinified (optimizationChecks (report v)) then []
            else [''CSS files do not appear to be minified'']) @
           (if jsMinified (optimizationChecks (report v)) then []
            else [''JavaScript files do not appear to be minified'']) \<and>
         length (errors v) =
           length (filter Not [allAssetsHashed (optimizationChecks (report v)),
                               htmlMinified (optimizationChecks (report v)),
                               cssMinified (optimizationChecks (report v)),
                               jsMinified (optimizationChecks (report v))]) \<and>
         (\<not> allAssetsHashed (optimizationChecks (report v)) \<longrightarrow>
            (\<exists>pre post. pre @ ''content hashes'' @ post \<in> set (errors v)))"
proof -
  from assms obtain rep where rep: "generateBuildReport env dir = Inr rep"
    by (cases "generateBuildReport env dir") (simp_all add: validateBuildOptimization_def)
  let ?c = "optimizationChecks rep"
  let ?es = "push_unless (jsMinified ?c) ''JavaScript files do not appear to be minified''
              (push_unless (cssMinified ?c) ''CSS files do not appear to be minified''
                (push_unless (htmlMinified ?c) ''HTML files do not appear to be minified''
                  (push_unless (allAssetsHashed ?c)
                     ''Not all CSS/JS assets in the assets folder have content hashes'' [])))"
  have v: "v = \<lparr>valid = (length ?es = 0), report = rep, errors = ?es\<rparr>"
    using assms by (simp add: validateBuildOptimization_def rep Let_def)
  have msg: "''Not all CSS/JS assets in the assets folder have '' @ ''content hashes'' @ [] =
             ''Not all CSS/JS assets in the assets folder have content hashes''"
    by simp
  have hashes: "\<exists>pre post. pre @ ''content hashes'' @ post \<in> set (errors v)"
    if "\<not> allAssetsHashed (optimizationChecks (report v))"
  proof -
    have "''Not all CSS/JS assets in the assets folder have content hashes'' \<in> set (errors v)"
      using that by (simp add: v push_unless_def)
    with msg show ?thesis by metis
  qed
  have "generateBuildReport env dir = Inr (report v)" by (simp add: v rep)
  moreover have "valid v = (errors v = [])" by (simp add: v)
  moreover have "errors v =
           (if allAssetsHashed (optimizationChecks (report v)) then []
            else [''Not all CSS/JS assets in the assets folder have content hashes'']) @
           (if htmlMinified (optimizationChecks (report v)) then []
            else [''HTML files do not appear to be minified'']) @
           (if cssMinified (optimizationChecks (report v)) then []
            else [''CSS files do not appear to be minified'']) @
           (if jsMinified (optimizationChecks (report v)) then []
            else [''JavaScript files do not appear to be minified''])"
    by (simp add: v push_unless_def)
  moreover have "length (errors v) =
           length (filter Not [allAssetsHashed (optimizationChecks (report v)),
                               htmlMinified (optimizationChecks (report v)),
                               cssMinified (optimizationChecks (report v)),
                               jsMinified (optimizationChecks (report v))])"
    by (simp add: v push_unless_def)
  ultimately show ?thesis using hashes by blast
qed

lemma collect_unhashed_css:
  "collectFiles env_unhashed_css ''dist'' =
     Inr [\<lparr>path = ''index.html'', fsize = 45, atype = Html, hasHash = False\<rparr>,
          \<lparr>path = ''assets/style.css'', fsize = 16, atype = Css, hasHash = False\<rparr>]"
  by code_simp

lemma read_unhashed_css:
  "readFileSync env_unhashed_css (path_join ''dist'' ''index.html'') =
     Inr ''<!DOCTYPE html><html><body>Test</body></html>''"
  "readFileSync env_unhashed_css (path_join ''dist'' ''assets/style.css'') =
     Inr ''.test{color:red}''"
  by code_simp+

lemma minified_examples:
  "isHtmlMinified ''<!DOCTYPE html><html><body>Test</body></html>''"
  "isCssMinified ''.test{color:red}''"
  "isJsMinified ''var x=1;''"
  by code_simp+

lemma not_hashed_unhashed_css:
  "\<not> check_allAssetsHashed
       [\<lparr>path = ''index.html'', fsize = 45, atype = Html, hasHash = False\<rparr>,
        \<lparr>path = ''assets/style.css'', fsize = 16, atype = Css, hasHash = False\<rparr>]"
  by code_simp

theorem validateBuildOptimization_errors_witness:
  "\<exists>v. validateBuildOptimization env_unhashed_css ''dist'' = Inr v \<and> \<not> valid v \<and>
        errors v = [''Not all CSS/JS assets in the assets folder have content hashes''] \<and>
        (\<exists>pre post. pre @ ''content hashes'' @ post \<in> set (errors v))"
proof -
  let ?cs = "[\<lparr>path = ''index.html'', fsize = 45, atype = Html, hasHash = False\<rparr>,
              \<lparr>path = ''assets/style.css'', fsize = 16, atype = Css, hasHash = False\<rparr>]"
  have h: "sample_minified isHtmlMinified env_unhashed_css ''dist''
             (take 3 (filter (\<lambda>a. atype a = Html) ?cs)) = Inr True"
    using read_unhashed_css minified_examples by simp
  have c: "sample_minified isCssMinified env_unhashed_css ''dist''
             (take 3 (filter (\<lambda>a. atype a = Css) ?cs)) = Inr True"
    using read_unhashed_css minified_examples by simp
  have j: "sample_minified isJsMinified env_unhashed_css ''dist''
             (take 3 (filter (\<lambda>a. atype a = Js) ?cs)) = Inr True"
    by simp
  from generateBuildReport_returns [OF collect_unhashed_css h c j]
  obtain rep where rep: "generateBuildReport env_unhashed_css ''dist'' = Inr rep"
    and as: "assets rep = ?cs"
    and fl: "htmlMinified (optimizationChecks rep)" "cssMinified (optimizationChecks rep)"
      "jsMinified (optimizationChecks rep)"
    by auto
  have nh: "\<not> allAssetsHashed (optimizationChecks rep)"
    using generateBuildReport_Inr(5) [OF rep] not_hashed_unhashed_css by (simp add: as)
  obtain v where v: "validateBuildOptimization env_unhashed_css ''dist'' = Inr v"
    by (simp add: validateBuildOptimization_def rep Let_def)
  note t = validateBuildOptimization_errors [OF v]
  from t rep have rv: "report v = rep" by simp
  have e: "errors v = [''Not all CSS/JS assets in the assets folder have content hashes'']"
    using t fl nh by (simp add: rv)
  have nv: "\<not> valid v" using t e by simp
  have ex: "\<exists>pre post. pre @ ''content hashes'' @ post \<in> set (errors v)"
    using t nh rv by blast
  show ?thesis using v e nv ex by blast
qed

lemma check_allAssetsHashed_iff:
  "check_allAssetsHashed cs =
     list_all (\<lambda>a. startsWith (path a) ''assets/'' \<and> (atype a = Css \<or> atype a = Js) \<longrightarrow> hasHash a) cs"
  by (auto simp: check_allAssetsHashed_def Let_def list_all_iff filter_empty_conv)

text \<open>
  C6, as amended. When \<open>generateBuildReport\<close> returns, \<open>allAssetsHashed\<close> is true exactly
  when every css or js asset whose path relative to the output directory starts with
  \<open>assets/\<close> carries a content hash (true when there is none); each of \<open>htmlMinified\<close>,
  \<open>cssMinified\<close>, \<open>jsMinified\<close> is true exactly when each of the first 3 collected files
  of its type, at most, passes its check, so later files have no influence; and a loop
  stops with false at the first sample that fails, whatever follows it.
\<close>

theorem generateBuildReport_optimizationChecks:
  assumes "generateBuildReport env dir = Inr rep"
  shows "collectFiles env dir = Inr (assets rep) \<and>
         allAssetsHashed (optimizationChecks rep) =
           list_all (\<lambda>a. startsWith (path a) ''assets/'' \<and> (atype a = Css \<or> atype a = Js)
                          \<longrightarrow> hasHash a) (assets rep) \<and>
         htmlMinified (optimizationChecks rep) =
           list_all (sample_passes isHtmlMinified env dir)
             (take 3 (filter (\<lambda>a. atype a = Html) (assets rep))) \<and>
         cssMinified (optimizationChecks rep) =
           list_all (sample_passes isCssMinified env dir)
             (take 3 (filter (\<lambda>a. atype a = Css) (assets rep))) \<and>
         jsMinified (optimizationChecks rep) =
           list_all (sample_passes isJsMinified env dir)
             (take 3 (filter (\<lambda>a. atype a = Js) (assets rep))) \<and>
         (list_all (sample_passes chk env dir) pre \<and> \<not> sample_passes chk env dir a \<and>
          readFileSync env (path_join dir (path a)) = Inr content \<longrightarrow>
          sample_minified chk env dir (pre @ a # post) = Inr False)"
proof -
  note r = generateBuildReport_Inr [OF assms]
  have sc: "sample_minified chk env dir (pre @ a # post) = Inr False"
    if "list_all (sample_passes chk env dir) pre" "\<not> sample_passes chk env dir a"
      "readFileSync env (path_join dir (path a)) = Inr content"
    using that sample_minified_short_circuit [of chk env dir pre a content post]
    by (simp add: sample_passes_def)
  show ?thesis
    using r(1) r(5) sample_minified_result [OF r(2)] sample_minified_result [OF r(3)]
      sample_minified_result [OF r(4)] sc
    unfolding check_allAssetsHashed_iff by blast
qed

lemma collect_nested_assets:
  "collectFiles env_nested_assets ''dist'' =
     Inr [\<lparr>path = ''static/assets/app.js'', fsize = 8, atype = Js, hasHash = False\<rparr>]"
  by code_simp

lemma read_nested_assets:
  "readFileSync env_nested_assets (path_join ''dist'' ''static/assets/app.js'') = Inr ''var x=1;''"
  by code_simp

lemma summarize_nested:
  "summarize [\<lparr>path = ''static/assets/app.js'', fsize = 8, atype = Js, hasHash = False\<rparr>] =
     \<lparr>totalFiles = 1, totalSize = 8, htmlFiles = 0, cssFiles = 0,
             jsFiles = 1, imageFiles = 0, otherFiles = 0, hashedAssets = 0,
             averageHtmlSize = 0, averageCssSize = 0, averageJsSize = 8\<rparr>"
  by code_simp

lemma hashed_nested:
  "check_allAssetsHashed
     [\<lparr>path = ''static/assets/app.js'', fsize = 8, atype = Js, hasHash = False\<rparr>]"
  by code_simp

text \<open>
  C6, as stated, fails: \<open>static/assets/app.js\<close> lives under a path segment \<open>assets/\<close>,
  is a js asset and carries no hash, and \<open>allAssetsHashed\<close> is true.
\<close>

theorem generateBuildReport_counterexample:
  "generateBuildReport env_nested_assets ''dist'' =
     Inr \<lparr>timestamp = ''2024-01-01T00:00:00.000Z'', outputDir = ''dist'',
          assets = [\<lparr>path = ''static/assets/app.js'', fsize = 8, atype = Js, hasHash = False\<rparr>],
          summary =
            \<lparr>totalFiles = 1, totalSize = 8, htmlFiles = 0, cssFiles = 0,
             jsFiles = 1, imageFiles = 0, otherFiles = 0, hashedAssets = 0,
             averageHtmlSize = 0, averageCssSize = 0, averageJsSize = 8\<rparr>,
          optimizationChecks =
            \<lparr>allAssetsHashed = True, htmlMinified = True, cssMinified = True,
             jsMinified = True\<rparr>\<rparr> \<and>
   under_assets_segment ''static/assets/app.js''"
proof -
  have d: "date_now env_nested_assets = ''2024-01-01T00:00:00.000Z''" by code_simp
  have u: "under_assets_segment ''static/assets/app.js''" by code_simp
  have j: "sample_minified isJsMinified env_nested_assets ''dist''
             [\<lparr>path = ''static/assets/app.js'', fsize = 8, atype = Js, hasHash = False\<rparr>] = Inr True"
    using read_nested_assets minified_examples by simp
  show ?thesis
    using u j hashed_nested
    by (simp add: generateBuildReport_def collect_nested_assets summarize_nested d)
qed

lemma collect_four_html:
  "collectFiles env_four_html ''dist'' =
     Inr [\<lparr>path = ''a.html'', fsize = 13, atype = Html, hasHash = False\<rparr>,
          \<lparr>path = ''b.html'', fsize = 13, atype = Html, hasHash = False\<rparr>,
          \<lparr>path = ''c.html'', fsize = 13, atype = Html, hasHash = False\<rparr>,
          \<lparr>path = ''d.html'', fsize = 200, atype = Html, hasHash = False\<rparr>]"
  by code_simp

lemma read_four_html:
  "readFileSync env_four_html (path_join ''dist'' ''a.html'') = Inr ''<html></html>''"
  "readFileSync env_four_html (path_join ''dist'' ''b.html'') = Inr ''<html></html>''"
  "readFileSync env_four_html (path_join ''dist'' ''c.html'') = Inr ''<html></html>''"
  "readFileSync env_four_html (path_join ''dist'' ''d.html'') =
     Inr (replicate 100 (CHR 0x0A) @ replicate 100 (CHR ''x''))"
  by code_simp+

lemma html_examples:
  "isHtmlMinified ''<html></html>''"
  "\<not> isHtmlMinified (replicate 100 (CHR 0x0A) @ replicate 100 (CHR ''x''))"
  by code_simp+

theorem generateBuildReport_optimizationChecks_witness:
  "\<exists>rep. generateBuildReport env_four_html ''dist'' = Inr rep \<and>
         length (filter (\<lambda>a. atype a = Html) (assets rep)) = 4 \<and>
         htmlMinified (optimizationChecks rep) \<and>
         allAssetsHashed (optimizationChecks rep) \<and>
         \<not> sample_passes isHtmlMinified env_four_html ''dist''
              \<lparr>path = ''d.html'', fsize = 200, atype = Html, hasHash = False\<rparr> \<and>
         sample_minified isHtmlMinified env_four_html ''dist''
           ([] @ \<lparr>path = ''d.html'', fsize = 200, atype = Html, hasHash = False\<rparr> #
                 [\<lparr>path = ''a.html'', fsize = 13, atype = Html, hasHash = False\<rparr>]) = Inr False"
proof -
  let ?a = "\<lparr>path = ''a.html'', fsize = 13, atype = Html, hasHash = False\<rparr>"
  let ?b = "\<lparr>path = ''b.html'', fsize = 13, atype = Html, hasHash = False\<rparr>"
  let ?c = "\<lparr>path = ''c.html'', fsize = 13, atype = Html, hasHash = False\<rparr>"
  let ?d = "\<lparr>path = ''d.html'', fsize = 200, atype = Html, hasHash = False\<rparr>"
  have h: "sample_minified isHtmlMinified env_four_html ''dist''
             (take 3 (filter (\<lambda>a. atype a = Html) [?a, ?b, ?c, ?d])) = Inr True"
    using read_four_html html_examples by simp
  from generateBuildReport_returns [OF collect_four_html h]
  obtain rep where rep: "generateBuildReport env_four_html ''dist'' = Inr rep"
    and as: "assets rep = [?a, ?b, ?c, ?d]"
    by auto
  have pa: "sample_passes isHtmlMinified env_four_html ''dist'' ?a"
    "sample_passes isHtmlMinified env_four_html ''dist'' ?b"
    "sample_passes isHtmlMinified env_four_html ''dist'' ?c"
    using read_four_html html_examples by (simp_all add: sample_passes_def)
  have pd: "\<not> sample_passes isHtmlMinified env_four_html ''dist'' ?d"
    using read_four_html html_examples by (simp add: sample_passes_def)
  have rd: "readFileSync env_four_html (path_join ''dist'' (path ?d)) =
              Inr (replicate 100 (CHR 0x0A) @ replicate 100 (CHR ''x''))"
    using read_four_html by simp
  note t = generateBuildReport_optimizationChecks
    [OF rep, of isHtmlMinified "[]" ?d "replicate 100 (CHR 0x0A) @ replicate 100 (CHR ''x'')" "[?a]"]
  have 1: "htmlMinified (optimizationChecks rep)"
    using t pa by (simp add: as)
  have 2: "allAssetsHashed (optimizationChecks rep)"
    using t by (simp add: as)
  have 3: "sample_minified isHtmlMinified env_four_html ''dist'' ([] @ ?d # [?a]) = Inr False"
    using t pd rd by simp
  show ?thesis using rep 1 2 3 pd by (simp add: as)
qed

section \<open>Content changes\<close>

lemma scan_new_eq:
  "scan_new old new acc =
     (fst acc @ map fst (filter (\<lambda>e. \<not> js_in (fst e) old) new),
      snd acc @ map fst (filter (\<lambda>e. js_in (fst e) old \<and> property_differs old (fst e) (snd e)) new))"
  by (induction new arbitrary: acc) auto

lemma scan_old_eq: "scan_old new ks acc = acc @ filter (\<lambda>k. \<not> js_in k new) ks"
  by (induction ks arbitrary: acc) auto

lemma has_key_map_of: "has_key k m = (map_of m k \<noteq> None)"
  by (simp add: has_key_def map_of_eq_None_iff)

lemma added_iff:
  "(p \<in> set (added (detectContentChanges old new))) = (has_key p new \<and> \<not> js_in p old)"
  by (auto simp: detectContentChanges_def Let_def scan_new_eq has_key_def)

lemma deleted_iff:
  "(p \<in> set (deleted (detectContentChanges old new))) = (has_key p old \<and> \<not> js_in p new)"
  by (auto simp: detectContentChanges_def Let_def scan_old_eq has_key_def)

lemma modified_iff:
  "(p \<in> set (modified (detectContentChanges old new))) =
     (\<exists>t'. (p, t') \<in> set new \<and> js_in p old \<and> property_differs old p t')"
  by (force simp: detectContentChanges_def Let_def scan_new_eq image_iff)

text \<open>
  On manifests whose keys are not names that every object inherits, with no timestamp
  \<open>NaN\<close> in the new one, the three lists are the ones the specification describes.
\<close>

lemma detectContentChanges_own_keys:
  assumes wf: "wf_manifest new"
    and ko: "\<forall>k\<in>set (map fst old). k \<notin> set object_prototype_names"
    and kn: "\<forall>k\<in>set (map fst new). k \<notin> set object_prototype_names"
    and nan: "\<forall>e\<in>set new. snd e \<noteq> NotANumber"
  shows "(p \<in> set (modified (detectContentChanges old new))) =
           (\<exists>t t'. map_of old p = Some t \<and> map_of new p = Some t' \<and> t \<noteq> t')"
    and "(p \<in> set (added (detectContentChanges old new))) = (has_key p new \<and> \<not> has_key p old)"
    and "(p \<in> set (deleted (detectContentChanges old new))) = (has_key p old \<and> \<not> has_key p new)"
proof -
  have inn: "js_in p old = has_key p old" if "has_key p new"
    using that kn by (auto simp: js_in_def has_key_def)
  have ino: "js_in p new = has_key p new" if "has_key p old"
    using that ko by (auto simp: js_in_def has_key_def)
  show "(p \<in> set (added (detectContentChanges old new))) = (has_key p new \<and> \<not> has_key p old)"
    using inn by (auto simp: added_iff)
  show "(p \<in> set (deleted (detectContentChanges old new))) = (has_key p old \<and> \<not> has_key p new)"
    using ino by (auto simp: deleted_iff)
  show "(p \<in> set (modified (detectContentChanges old new))) =
           (\<exists>t t'. map_of old p = Some t \<and> map_of new p = Some t' \<and> t \<noteq> t')"
  proof
    assume "p \<in> set (modified (detectContentChanges old new))"
    then obtain t' where t': "(p, t') \<in> set new" and i: "js_in p old"
      and d: "property_differs old p t'"
      unfolding modified_iff by blast
    from t' have hk: "has_key p new" by (force simp: has_key_def)
    from t' nan have nn: "t' \<noteq> NotANumber" by force
    from inn [OF hk] i obtain t where t: "map_of old p = Some t"
      by (auto simp: has_key_map_of)
    from d t nn have "t \<noteq> t'" by (auto simp: property_differs_def strict_neq_def)
    moreover from t' wf have "map_of new p = Some t'" by (simp add: wf_manifest_def)
    ultimately show "\<exists>t t'. map_of old p = Some t \<and> map_of new p = Some t' \<and> t \<noteq> t'"
      using t by blast
  next
    assume "\<exists>t t'. map_of old p = Some t \<and> map_of new p = Some t' \<and> t \<noteq> t'"
    then obtain t t' where t: "map_of old p = Some t" and t': "map_of new p = Some t'"
      and ne: "t \<noteq> t'" by blast
    from t' have m: "(p, t') \<in> set new" by (rule map_of_SomeD)
    from t have "js_in p old" by (simp add: js_in_def has_key_map_of)
    moreover from t ne have "property_differs old p t'"
      by (simp add: property_differs_def strict_neq_def)
    ultimately show "p \<in> set (modified (detectContentChanges old new))"
      unfolding modified_iff using m by blast
  qed
qed


section \<open>Average rating\<close>

lemma foldl_rating: "foldl (\<lambda>acc t. acc + rating t) a xs = a + sum_list (map rating xs)"
  by (induction xs arbitrary: a) simp_all

lemma sum_list_bounds:
  fixes xs :: "rat list"
  assumes "\<forall>x\<in>set xs. 1 \<le> x \<and> x \<le> 5"
  shows "of_nat (length xs) \<le> sum_list xs \<and> sum_list xs \<le> 5 * of_nat (length xs)"
  using assms by (induction xs) auto

lemma mean_bounds:
  fixes xs :: "rat list"
  assumes "xs \<noteq> []" "\<forall>x\<in>set xs. 1 \<le> x \<and> x \<le> 5"
  shows "1 \<le> mean xs \<and> mean xs \<le> 5"
proof -
  have pos: "(0::rat) < of_nat (length xs)" using assms(1) by simp
  from sum_list_bounds [OF assms(2)] pos show ?thesis
    by (simp add: mean_def pos_le_divide_eq pos_divide_le_eq)
qed

lemma round_tenths_bounds:
  fixes m :: rat
  assumes "1 \<le> m" "m \<le> 5"
  shows "1 \<le> (of_int (Math_round (m * 10)) / 10 :: rat) \<and> (of_int (Math_round (m * 10)) / 10 :: rat) \<le> 5"
proof -
  have "(10::int) \<le> Math_round (m * 10)"
    unfolding Math_round_def using assms(1) by (simp add: le_floor_iff)
  moreover have "Math_round (m * 10) \<le> (50::int)"
    unfolding Math_round_def using assms(2) by (simp add: floor_le_iff)
  ultimately have "(10::rat) \<le> of_int (Math_round (m * 10)) \<and> (of_int (Math_round (m * 10)) :: rat) \<le> 50"
    by (metis of_int_le_iff of_int_numeral)
  then show ?thesis by simp
qed

text \<open>
  C7. \<open>calculateAverageRating\<close> returns \<open>null\<close> when no testimonial has the given course
  slug; otherwise it returns the mean of the matching ratings, times 10, rounded, divided
  by 10; and when the matching ratings are integers between 1 and 5 the result lies
  between 1 and 5.
\<close>

theorem calculateAverageRating_result:
  "(filter (\<lambda>t. courseSlug t = slug) ts = [] \<longrightarrow> calculateAverageRating ts slug = None) \<and>
   (filter (\<lambda>t. courseSlug t = slug) ts \<noteq> [] \<longrightarrow>
      calculateAverageRating ts slug =
        Some (of_int (Math_round (mean (map rating (filter (\<lambda>t. courseSlug t = slug) ts)) * 10))
              / 10)) \<and>
   (filter (\<lambda>t. courseSlug t = slug) ts \<noteq> [] \<and>
    (\<forall>t\<in>set ts. courseSlug t = slug \<longrightarrow> rating t \<in> \<int> \<and> 1 \<le> rating t \<and> rating t \<le> 5) \<longrightarrow>
      (\<exists>v. calculateAverageRating ts slug = Some v \<and> 1 \<le> v \<and> v \<le> 5))"
proof -
  let ?m = "filter (\<lambda>t. courseSlug t = slug) ts"
  have none: "calculateAverageRating ts slug = None" if "?m = []"
    using that by (simp add: calculateAverageRating_def)
  have some: "calculateAverageRating ts slug =
        Some (of_int (Math_round (mean (map rating ?m) * 10)) / 10)" if "?m \<noteq> []"
    using that by (simp add: calculateAverageRating_def Let_def foldl_rating mean_def)
  have rng: "\<exists>v. calculateAverageRating ts slug = Some v \<and> 1 \<le> v \<and> v \<le> 5"
    if ne: "?m \<noteq> []"
      and r: "\<forall>t\<in>set ts. courseSlug t = slug \<longrightarrow> rating t \<in> \<int> \<and> 1 \<le> rating t \<and> rating t \<le> 5"
  proof -
    have "map rating ?m \<noteq> []" using ne by simp
    moreover have "\<forall>x\<in>set (map rating ?m). 1 \<le> x \<and> x \<le> 5" using r by auto
    ultimately have "1 \<le> mean (map rating ?m) \<and> mean (map rating ?m) \<le> 5"
      by (rule mean_bounds)
    then have "1 \<le> (of_int (Math_round (mean (map rating ?m) * 10)) / 10 :: rat) \<and>
               (of_int (Math_round (mean (map rating ?m) * 10)) / 10 :: rat) \<le> 5"
      using round_tenths_bounds by blast
    then show ?thesis unfolding some [OF ne] by blast
  qed
  from none some rng show ?thesis by blast
qed

theorem calculateAverageRating_result_witness:
  "calculateAverageRating
     [\<lparr>courseSlug = ''course-1'', rating = 5\<rparr>, \<lparr>courseSlug = ''course-1'', rating = 4\<rparr>,
      \<lparr>courseSlug = ''course-1'', rating = 4\<rparr>, \<lparr>courseSlug = ''course-2'', rating = 5\<rparr>]
     ''no-such-course'' = None \<and>
   calculateAverageRating
     [\<lparr>courseSlug = ''course-1'', rating = 5\<rparr>, \<lparr>courseSlug = ''course-1'', rating = 4\<rparr>,
      \<lparr>courseSlug = ''course-1'', rating = 4\<rparr>, \<lparr>courseSlug = ''course-2'', rating = 5\<rparr>]
     ''course-1'' = Some (43 / 10)"
proof -
  let ?ts = "[\<lparr>courseSlug = ''course-1'', rating = 5\<rparr>, \<lparr>courseSlug = ''course-1'', rating = 4\<rparr>,
      \<lparr>courseSlug = ''course-1'', rating = 4\<rparr>, \<lparr>courseSlug = ''course-2'', rating = 5\<rparr>]"
  have e: "filter (\<lambda>t. courseSlug t = ''no-such-course'') ?ts = []" by simp
  have f: "filter (\<lambda>t. courseSlug t = ''course-1'') ?ts =
           [\<lparr>courseSlug = ''course-1'', rating = 5\<rparr>, \<lparr>courseSlug = ''course-1'', rating = 4\<rparr>,
            \<lparr>courseSlug = ''course-1'', rating = 4\<rparr>]" by simp
  have r: "\<forall>t\<in>set ?ts. courseSlug t = ''course-1'' \<longrightarrow> rating t \<in> \<int> \<and> 1 \<le> rating t \<and> rating t \<le> 5"
    by simp
  have m: "(of_int (Math_round (mean [5, 4, 4] * 10)) / 10 :: rat) = 43 / 10"
    by code_simp
  from calculateAverageRating_result [of "''no-such-course''" ?ts] e
  have 1: "calculateAverageRating ?ts ''no-such-course'' = None" by blast
  from calculateAverageRating_result [of "''course-1''" ?ts] r
  have 2: "calculateAverageRating ?ts ''course-1'' =
        Some (of_int (Math_round (mean (map rating (filter (\<lambda>t. courseSlug t = ''course-1'') ?ts)) * 10))
              / 10)"
    unfolding f by blast
  have 3: "calculateAverageRating ?ts ''course-1'' = Some (43 / 10)"
    using 2 m unfolding f by simp
  from 1 3 show ?thesis by blast
qed

section \<open>Loading a YAML file\<close>

lemma prefixes_distinct:
  "''File not found: '' @ a \<noteq> ''Failed to load file: '' @ b"
  "''File not found: '' @ a \<noteq> ''Schema validation failed: '' @ c"
  "''Failed to load file: '' @ b \<noteq> ''Schema validation failed: '' @ c"
  by simp_all

lemma loadYamlFile_cases:
  "loadYamlFile env filePath schema =
     Inr (if \<not> existsSync env (path_resolve env filePath)
          then \<lparr>success = False, data = None, error = Some (''File not found: '' @ filePath)\<rparr>
          else case readFileSync env (path_resolve env filePath) of
                 Inl msg \<Rightarrow>
                   \<lparr>success = False, data = None, error = Some (''Failed to load file: '' @ msg)\<rparr>
               | Inr content \<Rightarrow>
              (case yaml_load env content of
                 Inl msg \<Rightarrow>
                   \<lparr>success = False, data = None, error = Some (''Failed to load file: '' @ msg)\<rparr>
               | Inr doc \<Rightarrow>
              (case schema doc of
                 Inl zerr \<Rightarrow>
                   \<lparr>success = False, data = None,
                    error = Some (''Schema validation failed: '' @ zod_message zerr)\<rparr>
               | Inr parsed \<Rightarrow> \<lparr>success = True, data = Some parsed, error = None\<rparr>)))"
  by (simp add: loadYamlFile_def try_catch_def Let_def split: sum.splits)

text \<open>
  C5, as amended. \<open>loadYamlFile\<close> never throws: for every path and schema it returns a
  result record, in which \<open>success\<close> holds exactly when there is a value and exactly when
  there is no error. A file that does not exist gives the error \<open>File not found\<close> with
  the path; a file that exists and cannot be read, or whose content the parser rejects,
  gives \<open>Failed to load file\<close> with the message that was thrown; content that parses and
  violates the schema gives \<open>Schema validation failed\<close> followed by the message of the
  schema error, which is the list of its issues printed as JSON with an indentation of
  two spaces; otherwise the result is the parsed value. The three kinds of error
  string differ from one another whatever follows their prefixes.
\<close>

theorem loadYamlFile_results:
  "(\<exists>r. loadYamlFile env filePath schema = Inr r \<and>
        success r = (data r \<noteq> None) \<and> success r = (error r = None)) \<and>
   (\<not> existsSync env (path_resolve env filePath) \<longrightarrow>
      loadYamlFile env filePath schema =
        Inr \<lparr>success = False, data = None, error = Some (''File not found: '' @ filePath)\<rparr>) \<and>
   (existsSync env (path_resolve env filePath) \<and>
    readFileSync env (path_resolve env filePath) = Inl thrown \<longrightarrow>
      loadYamlFile env filePath schema =
        Inr \<lparr>success = False, data = None, error = Some (''Failed to load file: '' @ thrown)\<rparr>) \<and>
   (existsSync env (path_resolve env filePath) \<and>
    readFileSync env (path_resolve env filePath) = Inr content \<and>
    yaml_load env content = Inl msg \<longrightarrow>
      loadYamlFile env filePath schema =
        Inr \<lparr>success = False, data = None, error = Some (''Failed to load file: '' @ msg)\<rparr>) \<and>
   (existsSync env (path_resolve env filePath) \<and>
    readFileSync env (path_resolve env filePath) = Inr content \<and>
    yaml_load env content = Inr doc \<and> schema doc = Inl zerr \<longrightarrow>
      loadYamlFile env filePath schema =
        Inr \<lparr>success = False, data = None,
             error = Some (''Schema validation failed: '' @
                           json_stringify 0 (JsonArr (map JsonObj (issues zerr))))\<rparr>) \<and>
   (existsSync env (path_resolve env filePath) \<and>
    readFileSync env (path_resolve env filePath) = Inr content \<and>
    yaml_load env content = Inr doc \<and> schema doc = Inr parsed \<longrightarrow>
      loadYamlFile env filePath schema =
        Inr \<lparr>success = True, data = Some parsed, error = None\<rparr>) \<and>
   ''File not found: '' @ a \<noteq> ''Failed to load file: '' @ b \<and>
   ''File not found: '' @ a \<noteq> ''Schema validation failed: '' @ c \<and>
   ''Failed to load file: '' @ b \<noteq> ''Schema validation failed: '' @ c"
proof -
  note c = loadYamlFile_cases [of env filePath schema]
  have ret: "\<exists>r. loadYamlFile env filePath schema = Inr r \<and>
        success r = (data r \<noteq> None) \<and> success r = (error r = None)"
    unfolding c by (simp split: sum.splits)
  have nf: "loadYamlFile env filePath schema =
        Inr \<lparr>success = False, data = None, error = Some (''File not found: '' @ filePath)\<rparr>"
    if "\<not> existsSync env (path_resolve env filePath)"
    using that unfolding c by simp
  have rf: "loadYamlFile env filePath schema =
        Inr \<lparr>success = False, data = None, error = Some (''Failed to load file: '' @ thrown)\<rparr>"
    if "existsSync env (path_resolve env filePath)"
      "readFileSync env (path_resolve env filePath) = Inl thrown"
    using that unfolding c by simp
  have pe: "loadYamlFile env filePath schema =
        Inr \<lparr>success = False, data = None, error = Some (''Failed to load file: '' @ msg)\<rparr>"
    if "existsSync env (path_resolve env filePath)"
      "readFileSync env (path_resolve env filePath) = Inr content"
      "yaml_load env content = Inl msg"
    using that unfolding c by simp
  have sv: "loadYamlFile env filePath schema =
        Inr \<lparr>success = False, data = None,
             error = Some (''Schema validation failed: '' @
                           json_stringify 0 (JsonArr (map JsonObj (issues zerr))))\<rparr>"
    if "existsSync env (path_resolve env filePath)"
      "readFileSync env (path_resolve env filePath) = Inr content"
      "yaml_load env content = Inr doc" "schema doc = Inl zerr"
    using that unfolding c by (simp add: zod_message_def)
  have ok: "loadYamlFile env filePath schema =
        Inr \<lparr>success = True, data = Some parsed, error = None\<rparr>"
    if "existsSync env (path_resolve env filePath)"
      "readFileSync env (path_resolve env filePath) = Inr content"
      "yaml_load env content = Inr doc" "schema doc = Inr parsed"
    using that unfolding c by simp
  from ret nf rf pe sv ok prefixes_distinct show ?thesis by blast
qed

lemma env_loader_facts:
  "\<not> existsSync env_loader (path_resolve env_loader ''data/missing.yaml'')"
  "existsSync env_loader (path_resolve env_loader ''data/bad.yaml'')"
  "existsSync env_loader (path_resolve env_loader ''data/invalid.yaml'')"
  "existsSync env_loader (path_resolve env_loader ''data/ok.yaml'')"
  "existsSync env_loader (path_resolve env_loader ''data/folder.yaml'')"
  "readFileSync env_loader (path_resolve env_loader ''data/bad.yaml'') = Inr ''a: [''"
  "readFileSync env_loader (path_resolve env_loader ''data/invalid.yaml'') = Inr ''test: 5''"
  "readFileSync env_loader (path_resolve env_loader ''data/ok.yaml'') = Inr ''test: hello''"
  "readFileSync env_loader (path_resolve env_loader ''data/folder.yaml'') =
     Inl ''EISDIR: illegal operation on a directory, read''"
  "yaml_load env_loader ''a: ['' = Inl ''YAMLException: bad indentation of a mapping entry''"
  "yaml_load env_loader ''test: 5'' = Inr (JObj [(''test'', JNum 5)])"
  "yaml_load env_loader ''test: hello'' = Inr (JObj [(''test'', JStr ''hello'')])"
  "test_schema (JObj [(''test'', JNum 5)]) = Inl test_number_error"
  "test_schema (JObj [(''test'', JStr ''hello'')]) = Inr (JObj [(''test'', JStr ''hello'')])"
  by code_simp+

lemma test_number_error_message:
  "json_stringify 0 (JsonArr (map JsonObj (issues test_number_error))) =
     js_lines [''['',
               ''  {'',
               ''    '' @ dq ''code'' @ '': '' @ dq ''invalid_type'' @ '','',
               ''    '' @ dq ''expected'' @ '': '' @ dq ''string'' @ '','',
               ''    '' @ dq ''received'' @ '': '' @ dq ''number'' @ '','',
               ''    '' @ dq ''path'' @ '': ['',
               ''      '' @ dq ''test'',
               ''    ],'',
               ''    '' @ dq ''message'' @ '': '' @ dq ''Expected string, received number'',
               ''  }'',
               '']'']"
  by code_simp

theorem loadYamlFile_results_witness:
  "loadYamlFile env_loader ''data/missing.yaml'' test_schema =
     Inr \<lparr>success = False, data = None, error = Some ''File not found: data/missing.yaml''\<rparr> \<and>
   loadYamlFile env_loader ''data/folder.yaml'' test_schema =
     Inr \<lparr>success = False, data = None,
          error = Some ''Failed to load file: EISDIR: illegal operation on a directory, read''\<rparr> \<and>
   loadYamlFile env_loader ''data/bad.yaml'' test_schema =
     Inr \<lparr>success = False, data = None,
          error = Some ''Failed to load file: YAMLException: bad indentation of a mapping entry''\<rparr> \<and>
   loadYamlFile env_loader ''data/invalid.yaml'' test_schema =
     Inr \<lparr>success = False, data = None,
          error = Some (''Schema validation failed: '' @
            js_lines [''['',
               ''  {'',
               ''    '' @ dq ''code'' @ '': '' @ dq ''invalid_type'' @ '','',
               ''    '' @ dq ''expected'' @ '': '' @ dq ''string'' @ '','',
               ''    '' @ dq ''received'' @ '': '' @ dq ''number'' @ '','',
               ''    '' @ dq ''path'' @ '': ['',
               ''      '' @ dq ''test'',
               ''    ],'',
               ''    '' @ dq ''message'' @ '': '' @ dq ''Expected string, received number'',
               ''  }'',
               '']''])\<rparr> \<and>
   loadYamlFile env_loader ''data/ok.yaml'' test_schema =
     Inr \<lparr>success = True, data = Some (JObj [(''test'', JStr ''hello'')]), error = None\<rparr>"
proof -
  note f = env_loader_facts
  from loadYamlFile_results [of env_loader "''data/missing.yaml''" test_schema] f(1)
  have 1: "loadYamlFile env_loader ''data/missing.yaml'' test_schema =
     Inr \<lparr>success = False, data = None, error = Some (''File not found: '' @ ''data/missing.yaml'')\<rparr>"
    by blast
  from loadYamlFile_results [of env_loader "''data/folder.yaml''" test_schema
      "''EISDIR: illegal operation on a directory, read''"] f(5) f(9)
  have 2: "loadYamlFile env_loader ''data/folder.yaml'' test_schema =
     Inr \<lparr>success = False, data = None,
          error = Some (''Failed to load file: '' @ ''EISDIR: illegal operation on a directory, read'')\<rparr>"
    by blast
  from loadYamlFile_results [of env_loader "''data/bad.yaml''" test_schema _ "''a: [''"
      "''YAMLException: bad indentation of a mapping entry''"] f(2) f(6) f(10)
  have 3: "loadYamlFile env_loader ''data/bad.yaml'' test_schema =
     Inr \<lparr>success = False, data = None,
          error = Some (''Failed to load file: '' @ ''YAMLException: bad indentation of a mapping entry'')\<rparr>"
    by blast
  from loadYamlFile_results [of env_loader "''data/invalid.yaml''" test_schema _ "''test: 5''"
      _ "JObj [(''test'', JNum 5)]" test_number_error] f(3) f(7) f(11) f(13)
  have 4: "loadYamlFile env_loader ''data/invalid.yaml'' test_schema =
     Inr \<lparr>success = False, data = None,
          error = Some (''Schema validation failed: '' @
                        json_stringify 0 (JsonArr (map JsonObj (issues test_number_error))))\<rparr>"
    by blast
  from loadYamlFile_results [of env_loader "''data/ok.yaml''" test_schema _ "''test: hello''"
      _ "JObj [(''test'', JStr ''hello'')]" _ "JObj [(''test'', JStr ''hello'')]"] f(4) f(8) f(12) f(14)
  have 5: "loadYamlFile env_loader ''data/ok.yaml'' test_schema =
     Inr \<lparr>success = True, data = Some (JObj [(''test'', JStr ''hello'')]), error = None\<rparr>"
    by blast
  from 1 2 3 4 5 show ?thesis unfolding test_number_error_message by simp
qed

text \<open>
  C5, as stated, fails: for this file the issue has the path \<open>test\<close> and the message
  \<open>Expected string, received number\<close>, and the error string is the prefix followed by
  the issue printed as JSON; the string \<open>test: Expected string, received number\<close> is not
  in it.
\<close>

theorem loadYamlFile_counterexample:
  "loadYamlFile env_loader ''data/invalid.yaml'' test_schema =
     Inr \<lparr>success = False, data = None,
          error = Some (''Schema validation failed: '' @
            js_lines [''['',
               ''  {'',
               ''    '' @ dq ''code'' @ '': '' @ dq ''invalid_type'' @ '','',
               ''    '' @ dq ''expected'' @ '': '' @ dq ''string'' @ '','',
               ''    '' @ dq ''received'' @ '': '' @ dq ''number'' @ '','',
               ''    '' @ dq ''path'' @ '': ['',
               ''      '' @ dq ''test'',
               ''    ],'',
               ''    '' @ dq ''message'' @ '': '' @ dq ''Expected string, received number'',
               ''  }'',
               '']''])\<rparr> \<and>
   formatZodErrors test_number_error = [''test: Expected string, received number''] \<and>
   \<not> carries_issue_list
       (''Schema validation failed: '' @
            js_lines [''['',
               ''  {'',
               ''    '' @ dq ''code'' @ '': '' @ dq ''invalid_type'' @ '','',
               ''    '' @ dq ''expected'' @ '': '' @ dq ''string'' @ '','',
               ''    '' @ dq ''received'' @ '': '' @ dq ''number'' @ '','',
               ''    '' @ dq ''path'' @ '': ['',
               ''      '' @ dq ''test'',
               ''    ],'',
               ''    '' @ dq ''message'' @ '': '' @ dq ''Expected string, received number'',
               ''  }'',
               '']''])
       test_number_error"
proof -
  note f = env_loader_facts
  have 1: "loadYamlFile env_loader ''data/invalid.yaml'' test_schema =
     Inr \<lparr>success = False, data = None,
          error = Some (''Schema validation failed: '' @
                        json_stringify 0 (JsonArr (map JsonObj (issues test_number_error))))\<rparr>"
    unfolding loadYamlFile_cases using f(3) f(7) f(11) f(13) by (simp add: zod_message_def)
  have 2: "formatZodErrors test_number_error = [''test: Expected string, received number'']"
    by code_simp
  have 3: "\<not> carries_issue_list
       (''Schema validation failed: '' @
          json_stringify 0 (JsonArr (map JsonObj (issues test_number_error))))
       test_number_error"
    by code_simp
  from 1 2 3 show ?thesis unfolding test_number_error_message by simp
qed

section \<open>Markdown frontmatter\<close>

lemma startsWith_iff: "startsWith s p = (\<exists>rest. s = p @ rest)"
proof
  assume "startsWith s p"
  then have "s = p @ drop (length p) s"
    by (metis append_take_drop_id startsWith_def)
  then show "\<exists>rest. s = p @ rest" ..
next
  assume "\<exists>rest. s = p @ rest"
  then show "startsWith s p" by (auto simp: startsWith_def)
qed

lemma lazy_capture_Some:
  "lazy_capture s = Some cap \<Longrightarrow> \<exists>rest. s = cap @ CHR 0x0A # ''---'' @ rest"
proof (induction s arbitrary: cap)
  case Nil
  then show ?case by simp
next
  case (Cons c cs)
  show ?case
  proof (cases "startsWith (c # cs) (CHR 0x0A # ''---'')")
    case True
    with Cons.prems have "cap = []" by simp
    moreover from True obtain rest where "c # cs = CHR 0x0A # ''---'' @ rest"
      unfolding startsWith_iff by auto
    ultimately show ?thesis by auto
  next
    case False
    with Cons.prems obtain cap' where "lazy_capture cs = Some cap'" "cap = c # cap'"
      by auto
    with Cons.IH show ?thesis by auto
  qed
qed

lemma lazy_capture_complete: "lazy_capture (cap @ CHR 0x0A # ''---'' @ rest) \<noteq> None"
  by (induction cap) (auto simp: startsWith_def)

lemma after_dashes_Some:
  "after_dashes s = Some cap \<Longrightarrow>
   \<exists>ws rest. s = ws @ CHR 0x0A # cap @ CHR 0x0A # ''---'' @ rest \<and> list_all is_space ws"
proof (induction s)
  case Nil
  then show ?case by simp
next
  case (Cons c cs)
  from Cons.prems have sp: "is_space c" by (auto split: if_splits)
  show ?case
  proof (cases "after_dashes cs")
    case (Some cap')
    with Cons.prems sp have "cap' = cap" by simp
    with Some Cons.IH obtain ws rest where
      "cs = ws @ CHR 0x0A # cap @ CHR 0x0A # ''---'' @ rest" "list_all is_space ws"
      by auto
    with sp have "c # cs = (c # ws) @ CHR 0x0A # cap @ CHR 0x0A # ''---'' @ rest \<and>
        list_all is_space (c # ws)" by simp
    then show ?thesis by blast
  next
    case None
    with Cons.prems sp have c: "c = CHR 0x0A" and l: "lazy_capture cs = Some cap"
      by (auto split: if_splits)
    from lazy_capture_Some [OF l] obtain rest where "cs = cap @ CHR 0x0A # ''---'' @ rest"
      by blast
    with c have "c # cs = [] @ CHR 0x0A # cap @ CHR 0x0A # ''---'' @ rest \<and> list_all is_space []"
      by simp
    then show ?thesis by blast
  qed
qed

lemma is_space_newline: "is_space (CHR 0x0A)"
  by (simp add: is_space_def)

lemma after_dashes_complete:
  "list_all is_space ws \<Longrightarrow>
   after_dashes (ws @ CHR 0x0A # cap @ CHR 0x0A # ''---'' @ rest) \<noteq> None"
proof (induction ws)
  case Nil
  show ?case
    using lazy_capture_complete [of cap rest] is_space_newline
    by (auto split: option.splits)
next
  case (Cons w ws)
  then show ?case by (auto split: option.splits)
qed

lemma frontmatterRegex_match_iff:
  "(frontmatterRegex_match content \<noteq> None) =
     (\<exists>ws cap rest. content = ''---'' @ ws @ CHR 0x0A # cap @ CHR 0x0A # ''---'' @ rest \<and>
        list_all is_space ws)"
proof
  assume "frontmatterRegex_match content \<noteq> None"
  then obtain cap where st: "startsWith content ''---''"
    and a: "after_dashes (drop 3 content) = Some cap"
    by (auto simp: frontmatterRegex_match_def split: if_splits)
  from st have c: "content = ''---'' @ drop 3 content"
    unfolding startsWith_iff by auto
  from after_dashes_Some [OF a] obtain ws rest where
    "drop 3 content = ws @ CHR 0x0A # cap @ CHR 0x0A # ''---'' @ rest" "list_all is_space ws"
    by blast
  with c have "content = ''---'' @ ws @ CHR 0x0A # cap @ CHR 0x0A # ''---'' @ rest \<and>
      list_all is_space ws" by simp
  then show "\<exists>ws cap rest. content = ''---'' @ ws @ CHR 0x0A # cap @ CHR 0x0A # ''---'' @ rest \<and>
        list_all is_space ws" by blast
next
  assume "\<exists>ws cap rest. content = ''---'' @ ws @ CHR 0x0A # cap @ CHR 0x0A # ''---'' @ rest \<and>
        list_all is_space ws"
  then obtain ws cap rest where
    c: "content = ''---'' @ ws @ CHR 0x0A # cap @ CHR 0x0A # ''---'' @ rest"
    and ws: "list_all is_space ws" by blast
  from after_dashes_complete [OF ws, of cap rest] show "frontmatterRegex_match content \<noteq> None"
    by (simp add: frontmatterRegex_match_def startsWith_def c)
qed


lemma extractFrontmatter_falsy:
  "(\<not> truthy (extractFrontmatter env content)) =
     (frontmatterRegex_match content = None \<or>
      (\<exists>cap. frontmatterRegex_match content = Some cap \<and>
         ((\<exists>msg. yaml_load env cap = Inl msg) \<or>
          (\<exists>v. yaml_load env cap = Inr v \<and> \<not> truthy v))))"
  by (auto simp: extractFrontmatter_def split: option.splits sum.splits)

lemma validateMarkdownFile_falsy:
  assumes "existsSync env filePath" and "readFileSync env filePath = Inr content"
    and "\<not> truthy (extractFrontmatter env content)"
  shows "validateMarkdownFile env filePath schema =
           \<lparr>valid_r = False, file_r = filePath,
            errors_r = Some [''No frontmatter found in markdown file'']\<rparr>"
  using assms by (simp add: validateMarkdownFile_def)

lemma validateMarkdownFile_truthy:
  assumes "existsSync env filePath" and "readFileSync env filePath = Inr content"
    and "truthy (extractFrontmatter env content)"
  shows "validateMarkdownFile env filePath schema =
           (case schema (extractFrontmatter env content) of
              Inr checked \<Rightarrow> \<lparr>valid_r = True, file_r = filePath, errors_r = None\<rparr>
            | Inl zerr \<Rightarrow>
                \<lparr>valid_r = False, file_r = filePath, errors_r = Some (formatZodErrors zerr)\<rparr>)"
  using assms by (simp add: validateMarkdownFile_def split: sum.splits)

text \<open>
  C4, as amended. For a Markdown file that exists and can be read, and a schema none of
  whose errors is formatted as the one message \<open>No frontmatter found in markdown file\<close>,
  \<open>validateMarkdownFile\<close> fails with that message exactly when \<open>extractFrontmatter\<close>
  yields nothing usable: the content does not match the pattern, or the YAML parser
  throws on the text between the delimiters, or the parsed value is falsy (an empty
  block). The pattern matches exactly when the content starts with \<open>---\<close>, whitespace, a
  line feed, and later has a line feed followed by \<open>---\<close>, which need not be a whole
  line. Malformed YAML is reported as missing frontmatter, never as a parse error.
\<close>

theorem validateMarkdownFile_no_frontmatter:
  assumes "existsSync env filePath" and "readFileSync env filePath = Inr content"
    and "\<forall>doc zerr. schema doc = Inl zerr \<longrightarrow>
           formatZodErrors zerr \<noteq> [''No frontmatter found in markdown file'']"
  shows "(validateMarkdownFile env filePath schema =
            \<lparr>valid_r = False, file_r = filePath,
             errors_r = Some [''No frontmatter found in markdown file'']\<rparr>) =
           (frontmatterRegex_match content = None \<or>
            (\<exists>cap. frontmatterRegex_match content = Some cap \<and>
               ((\<exists>msg. yaml_load env cap = Inl msg) \<or>
                (\<exists>v. yaml_load env cap = Inr v \<and> \<not> truthy v)))) \<and>
         (frontmatterRegex_match content \<noteq> None) =
           (\<exists>ws cap rest.
              content = ''---'' @ ws @ CHR 0x0A # cap @ CHR 0x0A # ''---'' @ rest \<and>
              list_all is_space ws) \<and>
         (frontmatterRegex_match content = Some cap \<and> yaml_load env cap = Inl msg \<longrightarrow>
            validateMarkdownFile env filePath schema =
              \<lparr>valid_r = False, file_r = filePath,
               errors_r = Some [''No frontmatter found in markdown file'']\<rparr> \<and>
            errors_r (validateMarkdownFile env filePath schema) \<noteq>
              Some [''Parse error: '' @ msg])"
proof -
  let ?none = "\<lparr>valid_r = False, file_r = filePath,
                errors_r = Some [''No frontmatter found in markdown file'']\<rparr>"
  have iff: "(validateMarkdownFile env filePath schema = ?none) =
             (\<not> truthy (extractFrontmatter env content))"
  proof (cases "truthy (extractFrontmatter env content)")
    case False
    with validateMarkdownFile_falsy [OF assms(1,2)] show ?thesis by simp
  next
    case True
    have "validateMarkdownFile env filePath schema \<noteq> ?none"
    proof (cases "schema (extractFrontmatter env content)")
      case (Inl zerr)
      with assms(3) have "formatZodErrors zerr \<noteq> [''No frontmatter found in markdown file'']"
        by blast
      with Inl show ?thesis
        by (simp add: validateMarkdownFile_truthy [OF assms(1,2) True])
    next
      case (Inr checked)
      then show ?thesis
        by (simp add: validateMarkdownFile_truthy [OF assms(1,2) True])
    qed
    with True show ?thesis by simp
  qed
  have mal: "validateMarkdownFile env filePath schema = ?none \<and>
             errors_r (validateMarkdownFile env filePath schema) \<noteq> Some [''Parse error: '' @ msg]"
    if "frontmatterRegex_match content = Some cap" "yaml_load env cap = Inl msg"
  proof -
    from that have "\<not> truthy (extractFrontmatter env content)"
      by (simp add: extractFrontmatter_def)
    with iff have "validateMarkdownFile env filePath schema = ?none" by simp
    then show ?thesis by simp
  qed
  from iff extractFrontmatter_falsy [of env content] frontmatterRegex_match_iff [of content] mal
  show ?thesis by blast
qed

lemma env_site_facts:
  "existsSync env_site ''site/src/data/products/broken.md''"
  "existsSync env_site ''site/src/data/products/plain.md''"
  "existsSync env_site ''site/src/data/products/loose.md''"
  "readFileSync env_site ''site/src/data/products/broken.md'' =
     Inr (js_lines [''---'', ''a: ['', ''---'', []])"
  "readFileSync env_site ''site/src/data/products/plain.md'' = Inr ''# Title''"
  "readFileSync env_site ''site/src/data/products/loose.md'' =
     Inr (js_lines [''---'', ''title: Course'', ''---x''])"
  "frontmatterRegex_match (js_lines [''---'', ''a: ['', ''---'', []]) = Some ''a: [''"
  "frontmatterRegex_match ''# Title'' = None"
  "frontmatterRegex_match (js_lines [''---'', ''title: Course'', ''---x'']) = Some ''title: Course''"
  "yaml_load env_site ''a: ['' = Inl ''YAMLException: bad indentation of a mapping entry''"
  "yaml_load env_site ''title: Course'' = Inr (JObj [(''title'', JStr ''Course'')])"
  by code_simp+

lemma object_schema_messages:
  "\<forall>doc zerr. object_schema doc = Inl zerr \<longrightarrow>
     formatZodErrors zerr \<noteq> [''No frontmatter found in markdown file'']"
proof (intro allI impI)
  fix doc zerr
  assume "object_schema doc = Inl zerr"
  then have "zerr = object_error" by (cases doc) simp_all
  then show "formatZodErrors zerr \<noteq> [''No frontmatter found in markdown file'']"
    by (simp add: formatZodErrors_def object_error_def issue_path_def issue_message_def)
qed

theorem validateMarkdownFile_no_frontmatter_witness:
  "validateMarkdownFile env_site ''site/src/data/products/broken.md'' object_schema =
     \<lparr>valid_r = False, file_r = ''site/src/data/products/broken.md'',
      errors_r = Some [''No frontmatter found in markdown file'']\<rparr> \<and>
   validateMarkdownFile env_site ''site/src/data/products/plain.md'' object_schema =
     \<lparr>valid_r = False, file_r = ''site/src/data/products/plain.md'',
      errors_r = Some [''No frontmatter found in markdown file'']\<rparr> \<and>
   validateMarkdownFile env_site ''site/src/data/products/loose.md'' object_schema \<noteq>
     \<lparr>valid_r = False, file_r = ''site/src/data/products/loose.md'',
      errors_r = Some [''No frontmatter found in markdown file'']\<rparr>"
proof -
  note f = env_site_facts
  from validateMarkdownFile_no_frontmatter
    [OF f(1) f(4) object_schema_messages, of "''a: [''"
       "''YAMLException: bad indentation of a mapping entry''"] f(7) f(10)
  have 1: "validateMarkdownFile env_site ''site/src/data/products/broken.md'' object_schema =
     \<lparr>valid_r = False, file_r = ''site/src/data/products/broken.md'',
      errors_r = Some [''No frontmatter found in markdown file'']\<rparr>" by blast
  from validateMarkdownFile_no_frontmatter [OF f(2) f(5) object_schema_messages] f(8)
  have 2: "validateMarkdownFile env_site ''site/src/data/products/plain.md'' object_schema =
     \<lparr>valid_r = False, file_r = ''site/src/data/products/plain.md'',
      errors_r = Some [''No frontmatter found in markdown file'']\<rparr>" by blast
  have t: "\<not> (frontmatterRegex_match (js_lines [''---'', ''title: Course'', ''---x'']) = None \<or>
            (\<exists>cap. frontmatterRegex_match (js_lines [''---'', ''title: Course'', ''---x'']) = Some cap \<and>
               ((\<exists>msg. yaml_load env_site cap = Inl msg) \<or>
                (\<exists>v. yaml_load env_site cap = Inr v \<and> \<not> truthy v))))"
    by (simp add: f(9) f(11))
  from validateMarkdownFile_no_frontmatter [OF f(3) f(6) object_schema_messages] t
  have 3: "validateMarkdownFile env_site ''site/src/data/products/loose.md'' object_schema \<noteq>
     \<lparr>valid_r = False, file_r = ''site/src/data/products/loose.md'',
      errors_r = Some [''No frontmatter found in markdown file'']\<rparr>" by blast
  from 1 2 3 show ?thesis by blast
qed

text \<open>
  C4, as stated, fails: in this file the closing line is \<open>---x\<close>, no line after the first
  is exactly \<open>---\<close>, and the file is validated with its frontmatter.
\<close>

theorem validateMarkdownFile_counterexample:
  "existsSync env_site ''site/src/data/products/loose.md'' \<and>
   readFileSync env_site ''site/src/data/products/loose.md'' =
     Inr (js_lines [''---'', ''title: Course'', ''---x'']) \<and>
   \<not> spec_frontmatter_block (js_lines [''---'', ''title: Course'', ''---x'']) \<and>
   validateMarkdownFile env_site ''site/src/data/products/loose.md'' object_schema =
     \<lparr>valid_r = True, file_r = ''site/src/data/products/loose.md'', errors_r = None\<rparr>"
proof -
  note f = env_site_facts
  have s: "\<not> spec_frontmatter_block (js_lines [''---'', ''title: Course'', ''---x''])"
    by code_simp
  have tr: "truthy (extractFrontmatter env_site (js_lines [''---'', ''title: Course'', ''---x'']))"
    by (simp add: extractFrontmatter_def f(9) f(11))
  have v: "validateMarkdownFile env_site ''site/src/data/products/loose.md'' object_schema =
     \<lparr>valid_r = True, file_r = ''site/src/data/products/loose.md'', errors_r = None\<rparr>"
    by (simp add: validateMarkdownFile_truthy [OF f(3) f(6) tr] extractFrontmatter_def f(9) f(11))
  from f(3) f(6) s v show ?thesis by blast
qed

section \<open>Validating all content\<close>

lemma validate_yaml_files_eq:
  "validate_yaml_files env vs res =
     res @ map (\<lambda>v. validateYamlFile env (fst v) (snd v))
             (filter (\<lambda>v. existsSync env (fst v)) vs)"
  by (induction vs arbitrary: res) simp_all

lemma validate_product_files_eq:
  "validate_product_files env schema fs res =
     res @ map (\<lambda>f. validateMarkdownFile env f schema)
             (filter (\<lambda>f. basename f \<noteq> ''.gitkeep'') fs)"
  by (induction fs arbitrary: res) simp_all

lemma matching_files_set:
  "f \<in> set (matching_files dir exts entries files) \<Longrightarrow>
   f \<in> set files \<or> (\<exists>name. f = path_join dir name \<and> toLowerCase (extname name) \<in> set exts)"
proof (induction entries arbitrary: files)
  case Nil
  then show ?case by simp
next
  case (Cons entry rest)
  show ?case
  proof (cases "snd entry")
    case (RegularFile sz)
    show ?thesis
    proof (cases "toLowerCase (extname (fst entry)) \<in> set exts")
      case True
      with RegularFile Cons.prems
      have "f \<in> set (matching_files dir exts rest (files @ [path_join dir (fst entry)]))"
        by (simp add: Let_def)
      from Cons.IH [OF this] True show ?thesis by auto
    next
      case False
      with RegularFile Cons.prems have "f \<in> set (matching_files dir exts rest files)"
        by (simp add: Let_def)
      from Cons.IH [OF this] show ?thesis .
    qed
  next
    case (Directory es)
    with Cons.prems have "f \<in> set (matching_files dir exts rest files)" by simp
    from Cons.IH [OF this] show ?thesis .
  next
    case OtherEntry
    with Cons.prems have "f \<in> set (matching_files dir exts rest files)" by simp
    from Cons.IH [OF this] show ?thesis .
  qed
qed

lemma file_r_validateYamlFile [simp]: "file_r (validateYamlFile env p schema) = p"
  by (simp add: validateYamlFile_def Let_def split: sum.splits)

lemma file_r_validateMarkdownFile [simp]: "file_r (validateMarkdownFile env p schema) = p"
  by (simp add: validateMarkdownFile_def Let_def split: sum.splits)

lemma extname_Nil: "extname [] = []"
  by (simp add: extname_def basename_def)

lemma product_file_not_yaml:
  assumes "toLowerCase (extname name) \<in> set [''.md'', ''.mdx'']"
    and "v \<in> set (yamlValidations schemas basePath)"
  shows "path_join (path_join basePath ''src/data/products'') name \<noteq> fst v"
proof -
  from assms(1) have "name \<noteq> []"
    by (auto simp: extname_Nil toLowerCase_def)
  then show ?thesis
    using assms(2) by (auto simp: yamlValidations_def path_join_def)
qed

lemma getFilesInDirectory_names:
  assumes "getFilesInDirectory env dir exts = Inr fs" and "f \<in> set fs"
  shows "\<exists>name. f = path_join dir name \<and> toLowerCase (extname name) \<in> set exts"
proof (cases "existsSync env dir")
  case False
  with assms show ?thesis by (simp add: getFilesInDirectory_def)
next
  case True
  with assms(1) obtain entries where "fs = matching_files dir exts entries []"
    by (auto simp: getFilesInDirectory_def split: sum.splits)
  with assms(2) matching_files_set [of f dir exts entries "[]"] show ?thesis by simp
qed

text \<open>
  C2. When \<open>validateAllContent\<close> returns a report, \<open>success\<close> is true exactly when the
  count of invalid results is zero; the counts are those of the results; the results are
  those of the data files among the four fixed ones that exist, in order, followed by
  those of the product files; and for a data file that does not exist no result is
  reported, so it is counted neither in total nor as valid or invalid.
\<close>

theorem validateAllContent_report:
  assumes "validateAllContent env schemas basePath = Inr rep"
  shows "success_c rep = (invalid_n (summary_c rep) = 0) \<and>
         total_n (summary_c rep) = length (results rep) \<and>
         valid_n (summary_c rep) = length (filter (\<lambda>r. valid_r r) (results rep)) \<and>
         invalid_n (summary_c rep) = length (filter (\<lambda>r. \<not> valid_r r) (results rep)) \<and>
         total_n (summary_c rep) = valid_n (summary_c rep) + invalid_n (summary_c rep) \<and>
         (\<exists>productFiles.
            getFilesInDirectory env (path_join basePath ''src/data/products'') [''.md'', ''.mdx'']
              = Inr productFiles \<and>
            results rep =
              map (\<lambda>v. validateYamlFile env (fst v) (snd v))
                (filter (\<lambda>v. existsSync env (fst v)) (yamlValidations schemas basePath)) @
              map (\<lambda>f. validateMarkdownFile env f (productSchema schemas))
                (filter (\<lambda>f. basename f \<noteq> ''.gitkeep'') productFiles)) \<and>
         (\<forall>v\<in>set (yamlValidations schemas basePath).
            \<not> existsSync env (fst v) \<longrightarrow> (\<forall>r\<in>set (results rep). file_r r \<noteq> fst v))"
proof -
  let ?dir = "path_join basePath ''src/data/products''"
  from assms obtain pf where pf: "getFilesInDirectory env ?dir [''.md'', ''.mdx''] = Inr pf"
    by (cases "getFilesInDirectory env ?dir [''.md'', ''.mdx'']")
      (simp_all add: validateAllContent_def Let_def)
  let ?ys = "map (\<lambda>v. validateYamlFile env (fst v) (snd v))
                (filter (\<lambda>v. existsSync env (fst v)) (yamlValidations schemas basePath))"
  let ?ps = "map (\<lambda>f. validateMarkdownFile env f (productSchema schemas))
                (filter (\<lambda>f. basename f \<noteq> ''.gitkeep'') pf)"
  let ?rep = "\<lparr>success_c = (length (filter (\<lambda>r. \<not> valid_r r) (?ys @ ?ps)) = 0),
                    timestamp_c = date_now env,
                    results = ?ys @ ?ps,
                    summary_c = \<lparr>total_n = length (?ys @ ?ps),
                                  valid_n = length (filter (\<lambda>r. valid_r r) (?ys @ ?ps)),
                                  invalid_n = length (filter (\<lambda>r. \<not> valid_r r) (?ys @ ?ps))\<rparr>\<rparr>"
  have eq: "validateAllContent env schemas basePath = Inr ?rep"
    unfolding validateAllContent_def Let_def pf validate_yaml_files_eq validate_product_files_eq
    by (simp only: sum.case append_Nil)
  from assms [unfolded eq] have "?rep = rep" by (simp only: sum.inject)
  then have rep: "rep = ?rep" by (rule sym)
  have res: "results rep = ?ys @ ?ps" by (subst rep) simp
  have cnt: "length (results rep) =
        length (filter (\<lambda>r. valid_r r) (results rep)) +
        length (filter (\<lambda>r. \<not> valid_r r) (results rep))"
    using sum_length_filter_compl [of "\<lambda>r. valid_r r" "results rep"] by simp
  have skip: "file_r r \<noteq> fst v"
    if v: "v \<in> set (yamlValidations schemas basePath)" and ne: "\<not> existsSync env (fst v)"
      and r: "r \<in> set (results rep)" for v r
  proof -
    from r res consider "r \<in> set ?ys" | "r \<in> set ?ps" by auto
    then show ?thesis
    proof cases
      case 1
      then obtain w where "existsSync env (fst w)" "file_r r = fst w" by auto
      with ne show ?thesis by auto
    next
      case 2
      then obtain f where f: "f \<in> set pf" "file_r r = f" by auto
      from getFilesInDirectory_names [OF pf f(1)] obtain name where
        "f = path_join ?dir name" "toLowerCase (extname name) \<in> set [''.md'', ''.mdx'']"
        by blast
      with product_file_not_yaml [OF _ v] f(2) show ?thesis by simp
    qed
  qed
  have 1: "success_c rep = (invalid_n (summary_c rep) = 0)" by (subst (1 2) rep) simp
  have 2: "total_n (summary_c rep) = length (results rep)" by (subst (1 2) rep) simp
  have 3: "valid_n (summary_c rep) = length (filter (\<lambda>r. valid_r r) (results rep))"
    by (subst (1 2) rep) simp
  have 4: "invalid_n (summary_c rep) = length (filter (\<lambda>r. \<not> valid_r r) (results rep))"
    by (subst (1 2) rep) simp
  have 5: "total_n (summary_c rep) = valid_n (summary_c rep) + invalid_n (summary_c rep)"
    using cnt 2 3 4 by simp
  from 1 2 3 4 5 pf res skip show ?thesis by blast
qed

lemma site_report:
  "validateAllContent env_site example_schemas ''site'' =
     Inr \<lparr>success_c = False, timestamp_c = ''2024-01-01T00:00:00.000Z'',
        results =
          [\<lparr>valid_r = True, file_r = ''site/src/data/testimonials.yaml'', errors_r = None\<rparr>,
           \<lparr>valid_r = False, file_r = ''site/src/data/repositories.yaml'',
              errors_r = Some [''Expected object'']\<rparr>,
           \<lparr>valid_r = False, file_r = ''site/src/data/products/broken.md'',
              errors_r = Some [''No frontmatter found in markdown file'']\<rparr>,
           \<lparr>valid_r = True, file_r = ''site/src/data/products/course.md'', errors_r = None\<rparr>,
           \<lparr>valid_r = True, file_r = ''site/src/data/products/loose.md'', errors_r = None\<rparr>,
           \<lparr>valid_r = False, file_r = ''site/src/data/products/plain.md'',
              errors_r = Some [''No frontmatter found in markdown file'']\<rparr>],
        summary_c = \<lparr>total_n = 6, valid_n = 3, invalid_n = 3\<rparr>\<rparr>"
  by code_simp


lemma site_resume_missing:
  "(''site/src/data/resume.yaml'', object_schema) \<in> set (yamlValidations example_schemas ''site'')"
  "\<not> existsSync env_site ''site/src/data/resume.yaml''"
  by (simp add: yamlValidations_def example_schemas_def path_join_def, code_simp)

theorem validateAllContent_report_witness:
  "\<exists>rep. validateAllContent env_site example_schemas ''site'' = Inr rep \<and>
         \<not> success_c rep \<and> total_n (summary_c rep) = 6 \<and> valid_n (summary_c rep) = 3 \<and>
         invalid_n (summary_c rep) = 3 \<and>
         list_all (\<lambda>r. file_r r \<noteq> ''site/src/data/resume.yaml'') (results rep)"
proof -
  from site_report obtain rep where
    rep: "validateAllContent env_site example_schemas ''site'' = Inr rep"
    and s: "total_n (summary_c rep) = 6" "valid_n (summary_c rep) = 3"
      "invalid_n (summary_c rep) = 3"
    by simp
  note t = validateAllContent_report [OF rep]
  from t s have 1: "\<not> success_c rep" by simp
  from t have d: "\<forall>v\<in>set (yamlValidations example_schemas ''site'').
            \<not> existsSync env_site (fst v) \<longrightarrow> (\<forall>r\<in>set (results rep). file_r r \<noteq> fst v)"
    by (elim conjE)
  from bspec [OF d site_resume_missing(1)] site_resume_missing(2)
  have "\<forall>r\<in>set (results rep). file_r r \<noteq> ''site/src/data/resume.yaml''"
    by simp
  then have 2: "list_all (\<lambda>r. file_r r \<noteq> ''site/src/data/resume.yaml'') (results rep)"
    by (simp add: list_all_iff)
  from rep s 1 2 show ?thesis by blast
qed

end
